theory Spec2Isabelle
  imports Main "HOL-Library.Sublist" "HOL-Library.Char_ord" "HOL-Library.List_Lexorder"
begin

section \<open>Python values used by the builder\<close>

text \<open>
  Exceptions are values. \<open>ValueError\<close> carries its message; \<open>TypeError\<close> is what the
  runtime raises when \<open>None\<close> reaches a call that needs a path, \<open>AttributeError\<close> when an
  attribute of \<open>None\<close> is read; \<open>Raised\<close> wraps whatever
  an external collaborator (download manager, format adapter, file API, a subclass hook)
  raises.
\<close>

datatype 'x py_error =
    ValueError string
  | TypeError
  | AttributeError
  | NotImplementedError
  | Raised 'x

text \<open>Truthiness of an optional string: \<open>None\<close> and \<open>""\<close> are false.\<close>

fun truthy :: "string option \<Rightarrow> bool" where
  "truthy None = False"
| "truthy (Some s) = (s \<noteq> [])"

text \<open>\<open>sub in s\<close> on strings: \<open>sub\<close> starts at some position of \<open>s\<close>.\<close>

fun py_in :: "string \<Rightarrow> string \<Rightarrow> bool" where
  "py_in sub [] = (sub = [])"
| "py_in sub (c # cs) = (prefix sub (c # cs) \<or> py_in sub cs)"

text \<open>
  \<open>os.path.join(a, b)\<close> (POSIX): an absolute \<open>b\<close> replaces \<open>a\<close>; otherwise \<open>b\<close> is
  appended, with a separator unless \<open>a\<close> is empty or already ends with one.
\<close>

definition os_path_join :: "string \<Rightarrow> string \<Rightarrow> string" where
  "os_path_join a b =
     (if prefix ''/'' b then b
      else if a = [] \<or> suffix ''/'' a then a @ b
      else a @ ''/'' @ b)"

section \<open>The file API (\<open>tf.gfile\<close>)\<close>

text \<open>
  The file API is an external collaborator: it is a parameter. \<open>'w\<close> is the state of the
  outside world (the disk), \<open>'x\<close> the exceptions collaborators raise.
\<close>

record ('w, 'x) gfile =
  Exists :: "'w \<Rightarrow> string \<Rightarrow> bool"
  ListDirectory :: "'w \<Rightarrow> string \<Rightarrow> 'x + string list"
  MakeDirs :: "'w \<Rightarrow> string \<Rightarrow> ('x + unit) \<times> 'w"

section \<open>\<open>DatasetBuilder\<close>: state and version resolution\<close>

record builder =
  name :: string
  data_dir_root :: string
  data_dir :: "string option"

definition incomplete_marker :: string where
  "incomplete_marker = ''.incomplete''"

text \<open>The comprehension of \<open>_get_data_dir\<close>: sorted listing, marked entries dropped.\<close>

definition version_dirnames :: "string list \<Rightarrow> string list" where
  "version_dirnames listing = filter (\<lambda>f. \<not> py_in incomplete_marker f) (sort listing)"

definition get_data_dir ::
  "('w, 'x) gfile \<Rightarrow> 'w \<Rightarrow> builder \<Rightarrow> string option \<Rightarrow> 'x py_error + string option" where
  "get_data_dir gf w b version =
     (let data_root_dir = os_path_join (data_dir_root b) (name b) in
      case version of
        Some v \<Rightarrow> Inr (Some (os_path_join data_root_dir v))
      | None \<Rightarrow>
          if Exists gf w data_root_dir then
            (case ListDirectory gf w data_root_dir of
               Inl x \<Rightarrow> Inl (Raised x)
             | Inr listing \<Rightarrow>
                 (let vs = version_dirnames listing in
                  if vs \<noteq> [] then Inr (Some (os_path_join data_root_dir (last vs)))
                  else Inr None))
          else Inr None)"

text \<open>A disk made of directories only: each path with its listing.\<close>

type_synonym disk = "(string \<times> string list) list"

definition disk_gfile :: "(disk, unit) gfile" where
  "disk_gfile =
     \<lparr> Exists = (\<lambda>w p. map_of w p \<noteq> None),
       ListDirectory = (\<lambda>w p. case map_of w p of None \<Rightarrow> Inl () | Some es \<Rightarrow> Inr es),
       MakeDirs = (\<lambda>w p. (Inr (), if map_of w p = None then (p, []) # w else w)) \<rparr>"

text \<open>The dataset root of the layout example: two versions and a staging directory.\<close>

definition example_disk :: disk where
  "example_disk =
     [(''/data/mnist'',
       [''v_20180601_1200.incomplete'', ''v_20180601_1200'', ''v_20180101_0000''])]"

definition example_builder :: builder where
  "example_builder = \<lparr> name = ''mnist'', data_dir_root = ''/data'', data_dir = None \<rparr>"

text \<open>A root whose entries all carry the marker, at the end or in the middle.\<close>

definition staging_only_disk :: disk where
  "staging_only_disk =
     [(''/data/mnist'', [''v_20180601_1200.incomplete'', ''v_20180101_0000.incomplete.bak''])]"

section \<open>\<open>tf_utils\<close>: shape assertion\<close>

text \<open>\<open>str\<close> of integers and of tuples of dimensions, as \<open>format\<close> prints them.\<close>

fun str_nat :: "nat \<Rightarrow> string" where
  "str_nat n =
     (if n < 10 then [''0123456789'' ! n]
      else str_nat (n div 10) @ [''0123456789'' ! (n mod 10)])"

definition str_int :: "int \<Rightarrow> string" where
  "str_int i = (if i < 0 then ''-'' @ str_nat (nat (- i)) else str_nat (nat i))"

fun repr_dim :: "int option \<Rightarrow> string" where
  "repr_dim None = ''None''"
| "repr_dim (Some i) = str_int i"

fun comma_join :: "string list \<Rightarrow> string" where
  "comma_join [] = []"
| "comma_join [s] = s"
| "comma_join (s # t # ss) = s @ '', '' @ comma_join (t # ss)"

fun repr_tuple :: "int option list \<Rightarrow> string" where
  "repr_tuple [] = ''()''"
| "repr_tuple [d] = ''('' @ repr_dim d @ '',)''"
| "repr_tuple ds = ''('' @ comma_join (map repr_dim ds) @ '')''"

text \<open>
  A shape is a tuple whose entries are integers or \<open>None\<close>. The generator expression
  keeps the pairs whose second component is not \<open>None\<close> and compares the rest.
\<close>

definition assert_shape_match :: "int option list \<Rightarrow> int option list \<Rightarrow> 'x py_error + unit" where
  "assert_shape_match shape1 shape2 =
     (if length shape1 \<noteq> length shape2 then
        Inl (ValueError (''Shapes should have same length: '' @ str_nat (length shape1)
                           @ '' - '' @ str_nat (length shape2)))
      else if \<not> list_all (\<lambda>(s1, s2). s1 = s2)
                   (filter (\<lambda>(s1, s2). s2 \<noteq> None) (zip shape1 shape2)) then
        Inl (ValueError (''Shape '' @ repr_tuple shape1 @ '' do not match '' @ repr_tuple shape2))
      else Inr ())"

definition shapes_agree :: "int option list \<Rightarrow> int option list \<Rightarrow> bool" where
  "shapes_agree shape1 shape2 \<longleftrightarrow>
     length shape1 = length shape2 \<and>
     list_all (\<lambda>i. shape2 ! i = None \<or> shape1 ! i = shape2 ! i) [0 ..< length shape2]"

section \<open>\<open>tf_utils\<close>: \<open>TFGraphRunner\<close>\<close>

text \<open>
  The numerical framework is an external collaborator: it is a parameter. \<open>'f\<close> are
  function objects, \<open>'a\<close> the values passed as input and returned as plain arrays,
  \<open>'d\<close> dtypes, \<open>'t\<close> tensors (placeholders, graph outputs, eager results), \<open>'g\<close>
  graphs, \<open>'s\<close> sessions, and \<open>'w\<close> the state of the framework: creating a graph or a
  session, calling a function object and running a session all work on it, and the last
  two can raise. A placeholder is created in the graph that is the default one.
\<close>

record ('f, 'a, 'd, 't, 'g, 's, 'w, 'x) tf_api =
  executing_eagerly :: bool
  py_id :: "'f \<Rightarrow> nat"
  call_eager :: "'w \<Rightarrow> 'f \<Rightarrow> 'a \<Rightarrow> ('x + 't) \<times> 'w"
  numpy :: "'t \<Rightarrow> 'a"
  is_ndarray :: "'a \<Rightarrow> bool"
  np_array :: "'a \<Rightarrow> 'a"
  dtype :: "'a \<Rightarrow> 'd"
  shape :: "'a \<Rightarrow> nat list"
  Graph :: "'w \<Rightarrow> 'g \<times> 'w"
  tf_placeholder :: "'g \<Rightarrow> 'd \<Rightarrow> nat list \<Rightarrow> 't"
  call_graph :: "'w \<Rightarrow> 'g \<Rightarrow> 'f \<Rightarrow> 't \<Rightarrow> ('x + 't) \<times> 'w"
  Session :: "'w \<Rightarrow> 'g \<Rightarrow> 's \<times> 'w"
  session_run :: "'w \<Rightarrow> 's \<Rightarrow> 't \<Rightarrow> 't \<Rightarrow> 'a \<Rightarrow> ('x + 'a) \<times> 'w"

record ('g, 's, 't) GraphRun =
  graph :: 'g
  session :: 's
  placeholder :: 't
  run_output :: 't

record ('f, 'a) RunArgs =
  fct :: 'f
  run_input :: 'a

type_synonym 'd signature = "nat \<times> 'd \<times> nat list"

record ('d, 'g, 's, 't) TFGraphRunner =
  graph_run_cache :: "'d signature \<rightharpoonup> ('g, 's, 't) GraphRun"

definition new_runner :: "('d, 'g, 's, 't) TFGraphRunner" where
  "new_runner = \<lparr> graph_run_cache = Map.empty \<rparr>"

definition build_signature ::
  "('f, 'a, 'd, 't, 'g, 's, 'w, 'x) tf_api \<Rightarrow> ('f, 'a) RunArgs \<Rightarrow> 'd signature" where
  "build_signature tf run_args =
     (py_id tf (fct run_args), dtype tf (run_input run_args), shape tf (run_input run_args))"

definition build_graph_run ::
  "('f, 'a, 'd, 't, 'g, 's, 'w, 'x) tf_api \<Rightarrow> ('f, 'a) RunArgs \<Rightarrow> 'w \<Rightarrow>
     ('x + ('g, 's, 't) GraphRun) \<times> 'w" where
  "build_graph_run tf run_args w =
     (case Graph tf w of
        (g, w1) \<Rightarrow>
          (let inp = run_input run_args;
               ph = tf_placeholder tf g (dtype tf inp) (shape tf inp)
           in case call_graph tf w1 g (fct run_args) ph of
                (Inl x, w2) \<Rightarrow> (Inl x, w2)
              | (Inr out, w2) \<Rightarrow>
                  (case Session tf w2 g of
                     (s, w3) \<Rightarrow>
                       (Inr \<lparr> graph = g, session = s, placeholder = ph, run_output = out \<rparr>, w3))))"

text \<open>\<open>feed\<close>: the final \<open>graph_run.session.run(graph_run.output, feed_dict=...)\<close>.\<close>

definition feed ::
  "('f, 'a, 'd, 't, 'g, 's, 'w, 'x) tf_api \<Rightarrow> ('g, 's, 't) GraphRun \<Rightarrow> 'a \<Rightarrow> 'w \<Rightarrow>
     ('x py_error + 'a) \<times> 'w" where
  "feed tf graph_run inp w =
     (case session_run tf w (session graph_run) (run_output graph_run) (placeholder graph_run) inp of
        (Inl x, w1) \<Rightarrow> (Inl (Raised x), w1)
      | (Inr v, w1) \<Rightarrow> (Inr v, w1))"

definition run ::
  "('f, 'a, 'd, 't, 'g, 's, 'w, 'x) tf_api \<Rightarrow> ('d, 'g, 's, 't) TFGraphRunner \<Rightarrow> 'f \<Rightarrow> 'a \<Rightarrow> 'w \<Rightarrow>
     ('x py_error + 'a) \<times> ('d, 'g, 's, 't) TFGraphRunner \<times> 'w" where
  "run tf self f inp w =
     (if executing_eagerly tf then
        (case call_eager tf w f inp of
           (Inl x, w1) \<Rightarrow> (Inl (Raised x), self, w1)
         | (Inr t, w1) \<Rightarrow> (Inr (numpy tf t), self, w1))
      else
        (let input1 = (if \<not> is_ndarray tf inp then np_array tf inp else inp);
             run_args = \<lparr> fct = f, run_input = input1 \<rparr>;
             signature = build_signature tf run_args
         in case graph_run_cache self signature of
              None \<Rightarrow>
                (case build_graph_run tf run_args w of
                   (Inl x, w1) \<Rightarrow> (Inl (Raised x), self, w1)
                 | (Inr graph_run, w1) \<Rightarrow>
                     (case feed tf graph_run input1 w1 of
                        (r, w2) \<Rightarrow>
                          (r, self \<lparr> graph_run_cache :=
                                      (graph_run_cache self)(signature \<mapsto> graph_run) \<rparr>, w2)))
            | Some graph_run \<Rightarrow>
                (case feed tf graph_run input1 w of (r, w1) \<Rightarrow> (r, self, w1))))"

text \<open>
  A small framework for examples. Its state counts the graphs and sessions created so
  far, and a new one is named by the count. Arrays are lists of integers with dtype \<open>()\<close>
  and the length as their shape; a function object is its identity, and the one with
  identity 13 raises when it is called on a placeholder. Running a session adds the
  session and the output tensor to each element.
\<close>

definition toy_tf :: "bool \<Rightarrow> (nat, int list, unit, nat, nat, nat, nat, unit) tf_api" where
  "toy_tf eager =
     \<lparr> executing_eagerly = eager,
       py_id = (\<lambda>f. f),
       call_eager = (\<lambda>w f a. (Inr (length a), w)),
       numpy = (\<lambda>t. replicate t 0),
       is_ndarray = (\<lambda>a. True),
       np_array = (\<lambda>a. a),
       dtype = (\<lambda>a. ()),
       shape = (\<lambda>a. [length a]),
       Graph = (\<lambda>w. (w, Suc w)),
       tf_placeholder = (\<lambda>g d s. g + sum_list s),
       call_graph = (\<lambda>w g f t. (if f = 13 then Inl () else Inr (f + t), w)),
       Session = (\<lambda>w g. (w, Suc w)),
       session_run = (\<lambda>w s out ph a. (Inr (map (\<lambda>v. v + int s + int out) a), w)) \<rparr>"

section \<open>\<open>DatasetBuilder.download_and_prepare\<close>\<close>

text \<open>
  Modelled from the spec: \<open>download.GenerateMode\<close> is not among the sources. The builder
  names one member, \<open>REUSE_DATASET_IF_EXISTS\<close>; any other member is told apart by its value.
\<close>

datatype GenerateMode = REUSE_DATASET_IF_EXISTS | OTHER_MODE string

text \<open>\<open>datetime.now().strftime("v_%Y%m%d_%H%M")\<close>: fields padded with zeros.\<close>

record datetime =
  year :: nat
  month :: nat
  day :: nat
  hour :: nat
  minute :: nat

definition zero_pad :: "nat \<Rightarrow> nat \<Rightarrow> string" where
  "zero_pad width n = replicate (width - length (str_nat n)) CHR ''0'' @ str_nat n"

definition strftime_version :: "datetime \<Rightarrow> string" where
  "strftime_version d =
     ''v_'' @ zero_pad 4 (year d) @ zero_pad 2 (month d) @ zero_pad 2 (day d)
       @ ''_'' @ zero_pad 2 (hour d) @ zero_pad 2 (minute d)"

text \<open>
  The collaborators of the base builder, as parameters: the file API, the download
  manager (\<open>'m\<close>; constructing one can raise and can touch the disk), the clock, and the
  scoped helper \<open>file_format_adapter.incomplete_dir\<close>. The helper is a context manager:
  entering it with the final path yields the staging path; leaving it is told whether the
  body completed.

  Modelled from the spec: the helper's code is not among the sources. It never swallows a
  failure of its body (the failure propagates to the caller); it may fail itself.
\<close>

record ('w, 'm, 'x) services =
  files :: "('w, 'x) gfile"
  DownloadManager :: "'w \<Rightarrow> string \<Rightarrow> ('x + 'm) \<times> 'w"
  dl_mode :: "'m \<Rightarrow> GenerateMode"
  now :: "'w \<Rightarrow> datetime"
  incomplete_dir_enter :: "'w \<Rightarrow> string \<Rightarrow> ('x + string) \<times> 'w"
  incomplete_dir_exit :: "'w \<Rightarrow> string \<Rightarrow> string \<Rightarrow> bool \<Rightarrow> ('x + unit) \<times> 'w"

text \<open>
  The abstract hook \<open>_download_and_prepare\<close> of a concrete builder: it reads the builder,
  assigns none of its fields, works on the disk, and completes or raises. What it raises
  is opaque to the base class.
\<close>

type_synonym ('w, 'm, 'x) hook = "builder \<Rightarrow> 'm \<Rightarrow> 'w \<Rightarrow> ('x + unit) \<times> 'w"

text \<open>
  Lines 168 to 177: the argument check and the download manager. The result is the
  manager the rest of the method uses; \<open>None\<close> cannot come out, but nothing in the
  types says so.
\<close>

definition resolve_dl_manager ::
  "('w, 'm, 'x) services \<Rightarrow> builder \<Rightarrow> string option \<Rightarrow> 'm option \<Rightarrow> 'w \<Rightarrow>
     ('x py_error + 'm option) \<times> 'w" where
  "resolve_dl_manager sv self cache_dir dl_manager w =
     (if truthy cache_dir \<and> dl_manager \<noteq> None then
        (Inl (ValueError ''Only one of dl_manager and cache_dir can be defined.''), w)
      else
        (let cache_dir1 =
               (if \<not> truthy cache_dir \<and> dl_manager = None
                then Some (os_path_join (data_dir_root self) ''tmp'')
                else cache_dir)
         in case cache_dir1 of
              Some c \<Rightarrow>
                (if c \<noteq> [] then
                   (case DownloadManager sv w c of
                      (Inl x, w1) \<Rightarrow> (Inl (Raised x), w1)
                    | (Inr m, w1) \<Rightarrow> (Inr (Some m), w1))
                 else (Inr dl_manager, w))
            | None \<Rightarrow> (Inr dl_manager, w)))"

text \<open>Lines 179 to 198: reuse the resolved dataset, or generate a new version.\<close>

definition reuse_or_generate ::
  "('w, 'm, 'x) services \<Rightarrow> ('w, 'm, 'x) hook \<Rightarrow> builder \<Rightarrow> 'm \<Rightarrow> 'w \<Rightarrow>
     ('x py_error + unit) \<times> builder \<times> 'w" where
  "reuse_or_generate sv hook self dl_manager w =
     (if truthy (data_dir self) \<and> dl_mode sv dl_manager = REUSE_DATASET_IF_EXISTS then
        (Inr (), self, w)
      else
        (let version_str = strftime_version (now sv w) in
         case get_data_dir (files sv) w self (Some version_str) of
           Inl e \<Rightarrow> (Inl e, self, w)
         | Inr None \<Rightarrow> (Inl TypeError, self, w)
         | Inr (Some data_dir1) \<Rightarrow>
             (case incomplete_dir_enter sv w data_dir1 of
                (Inl x, w1) \<Rightarrow> (Inl (Raised x), self, w1)
              | (Inr data_dir_tmp, w1) \<Rightarrow>
                  (let self1 = self \<lparr> data_dir := Some data_dir_tmp \<rparr> in
                   case hook self1 dl_manager w1 of
                     (Inl x, w2) \<Rightarrow>
                       (case incomplete_dir_exit sv w2 data_dir1 data_dir_tmp False of
                          (Inl x', w3) \<Rightarrow> (Inl (Raised x'), self1, w3)
                        | (Inr u, w3) \<Rightarrow> (Inl (Raised x), self1, w3))
                   | (Inr u, w2) \<Rightarrow>
                       (let self2 = self1 \<lparr> data_dir := Some data_dir1 \<rparr> in
                        case incomplete_dir_exit sv w2 data_dir1 data_dir_tmp True of
                          (Inl x', w3) \<Rightarrow> (Inl (Raised x'), self2, w3)
                        | (Inr u', w3) \<Rightarrow> (Inr (), self2, w3))))))"

definition download_and_prepare ::
  "('w, 'm, 'x) services \<Rightarrow> ('w, 'm, 'x) hook \<Rightarrow> builder \<Rightarrow> string option \<Rightarrow> 'm option \<Rightarrow> 'w \<Rightarrow>
     ('x py_error + unit) \<times> builder \<times> 'w" where
  "download_and_prepare sv hook self cache_dir dl_manager w =
     (case resolve_dl_manager sv self cache_dir dl_manager w of
        (Inl e, w1) \<Rightarrow> (Inl e, self, w1)
      | (Inr None, w1) \<Rightarrow> (Inl AttributeError, self, w1)
      | (Inr (Some m), w1) \<Rightarrow> reuse_or_generate sv hook self m w1)"

text \<open>
  Services for examples, on the disk of directories. A download manager is its cache
  directory and its mode; the constructor gives the reuse mode. The clock stands at
  2018-06-01 12:00. The staging path is the final path with the marker appended; a
  completed body renames it to the final path, a failed one leaves it.
\<close>

definition example_services :: "(disk, string \<times> GenerateMode, unit) services" where
  "example_services =
     \<lparr> files = disk_gfile,
       DownloadManager = (\<lambda>w c. (Inr (c, REUSE_DATASET_IF_EXISTS), w)),
       dl_mode = snd,
       now = (\<lambda>w. \<lparr> year = 2018, month = 6, day = 1, hour = 12, minute = 0 \<rparr>),
       incomplete_dir_enter = (\<lambda>w d. (Inr (d @ ''.incomplete''), (d @ ''.incomplete'', []) # w)),
       incomplete_dir_exit =
         (\<lambda>w d tmp ok.
            (Inr (), if ok then map (\<lambda>(p, es). (if p = tmp then d else p, es)) w else w)) \<rparr>"

definition failing_hook :: "(disk, string \<times> GenerateMode, unit) hook" where
  "failing_hook self m w = (Inl (), w)"

definition completing_hook :: "(disk, string \<times> GenerateMode, unit) hook" where
  "completing_hook self m w = (Inr (), w)"

section \<open>Splits, split files and split generators\<close>

datatype Split = TRAIN | VALIDATION | TEST

fun split_value :: "Split \<Rightarrow> string" where
  "split_value TRAIN = ''train''"
| "split_value VALIDATION = ''validation''"
| "split_value TEST = ''test''"

record SplitFiles =
  dataset_name :: string
  split :: Split
  num_shards :: "int option"
  split_data_dir :: "string option"
  filetype_suffix :: "string option"

text \<open>
  The module \<open>naming\<close> is not among the sources: its two functions are parameters.
  \<open>SplitFiles\<close> hands them its fields as they are.
\<close>

record 'x naming =
  filepaths_for_dataset_split ::
    "string \<Rightarrow> Split \<Rightarrow> int option \<Rightarrow> string option \<Rightarrow> string option \<Rightarrow> 'x + string list"
  filepattern_for_dataset_split ::
    "string \<Rightarrow> Split \<Rightarrow> string option \<Rightarrow> string option \<Rightarrow> 'x + string"

text \<open>
  The module \<open>file_format_adapter\<close> and the builder's adapter object are parameters too:
  the suffix the adapter declares, the existence check, and the write entry point, which
  takes a generator function (\<open>'g\<close>) and the output files, works on the disk, and can raise.
\<close>

record ('w, 'g, 'x) adapter =
  adapter_filetype_suffix :: "string option"
  do_files_exist :: "'w \<Rightarrow> string list \<Rightarrow> bool"
  write_from_generator :: "'w \<Rightarrow> 'g \<Rightarrow> string list \<Rightarrow> ('x + unit) \<times> 'w"


definition filepattern :: "'x naming \<Rightarrow> SplitFiles \<Rightarrow> 'x py_error + string" where
  "filepattern nm sf =
     (case filepattern_for_dataset_split nm (dataset_name sf) (split sf)
             (split_data_dir sf) (filetype_suffix sf) of
        Inl x \<Rightarrow> Inl (Raised x)
      | Inr p \<Rightarrow> Inr p)"


record 'g SplitGenerator =
  generator_fn :: 'g
  split_files :: "SplitFiles list"





definition splits :: "'g SplitGenerator \<Rightarrow> Split list" where
  "splits sg = map split (split_files sg)"

section \<open>\<open>GeneratorBasedDatasetBuilder\<close>\<close>

definition gb_split_files ::
  "('w, 'g, 'x) adapter \<Rightarrow> builder \<Rightarrow> Split \<Rightarrow> int option \<Rightarrow> SplitFiles" where
  "gb_split_files ad self sp n =
     \<lparr> dataset_name = name self, split = sp, num_shards = n,
       split_data_dir = data_dir self, filetype_suffix = adapter_filetype_suffix ad \<rparr>"




text \<open>
  \<open>_as_dataset\<close> hands \<open>dataset_utils.build_dataset\<close> the file pattern of the split and the
  shuffle flag; the other two arguments are fixed by the builder and are part of the
  parameter \<open>build_dataset\<close>. \<open>as_dataset\<close> of the base class passes its arguments on.
\<close>

definition gb_as_dataset ::
  "'x naming \<Rightarrow> ('w, 'g, 'x) adapter \<Rightarrow> (string \<Rightarrow> bool \<Rightarrow> 'x + 'ds) \<Rightarrow>
     builder \<Rightarrow> Split \<Rightarrow> bool option \<Rightarrow> 'x py_error + 'ds" where
  "gb_as_dataset nm ad build_dataset self sp shuffle_files =
     (case filepattern nm (gb_split_files ad self sp None) of
        Inl e \<Rightarrow> Inl e
      | Inr pattern \<Rightarrow>
          (case build_dataset pattern
                  (case shuffle_files of None \<Rightarrow> sp = TRAIN | Some s \<Rightarrow> s) of
             Inl x \<Rightarrow> Inl (Raised x)
           | Inr ds \<Rightarrow> Inr ds))"

definition as_dataset ::
  "(Split \<Rightarrow> bool option \<Rightarrow> 'x py_error + 'ds) \<Rightarrow> Split \<Rightarrow> bool option \<Rightarrow> 'x py_error + 'ds" where
  "as_dataset as_dataset_hook sp shuffle_files = as_dataset_hook sp shuffle_files"

section \<open>Shard naming, from the specification\<close>

text \<open>
  Modelled from the spec: \<open>naming.filepaths_for_dataset_split\<close> and
  \<open>naming.filepattern_for_dataset_split\<close> are not among the sources. The functions are
  pure and fail on malformed input only, with the invalid-argument condition: a shard
  count that is missing or not positive, or a missing directory. Otherwise there is one
  path per shard, named dataset-split(.suffix)-index-of-count with five-digit numbers, in
  the data directory. The pattern replaces the shard part by a wildcard. The conditions
  are those of the specification's error taxonomy.
\<close>

datatype naming_error = InvalidState | InvalidArgument

definition shard_prefix :: "string \<Rightarrow> Split \<Rightarrow> string option \<Rightarrow> string" where
  "shard_prefix dataset sp sfx =
     dataset @ ''-'' @ split_value sp
       @ (case sfx of None \<Rightarrow> [] | Some s \<Rightarrow> if s \<noteq> [] then ''.'' @ s else [])"

definition spec_filepaths ::
  "string \<Rightarrow> Split \<Rightarrow> int option \<Rightarrow> string option \<Rightarrow> string option \<Rightarrow> naming_error + string list" where
  "spec_filepaths dataset sp shards dir sfx =
     (case shards of
        None \<Rightarrow> Inl InvalidArgument
      | Some n \<Rightarrow>
          if n \<le> 0 then Inl InvalidArgument
          else
            (case dir of
               None \<Rightarrow> Inl InvalidArgument
             | Some d \<Rightarrow>
                 Inr (map (\<lambda>i. os_path_join d
                              (shard_prefix dataset sp sfx @ ''-'' @ zero_pad 5 i
                                 @ ''-of-'' @ zero_pad 5 (nat n)))
                        [0 ..< nat n])))"

definition spec_filepattern ::
  "string \<Rightarrow> Split \<Rightarrow> string option \<Rightarrow> string option \<Rightarrow> naming_error + string" where
  "spec_filepattern dataset sp dir sfx =
     (case dir of
        None \<Rightarrow> Inl InvalidArgument
      | Some d \<Rightarrow> Inr (os_path_join d (shard_prefix dataset sp sfx @ ''*'')))"

definition spec_naming :: "naming_error naming" where
  "spec_naming =
     \<lparr> filepaths_for_dataset_split = spec_filepaths,
       filepattern_for_dataset_split = spec_filepattern \<rparr>"


text \<open>
  An adapter for examples: the disk is the list of the files present, a write adds its
  output files, and a built dataset is the pair of arguments \<open>build_dataset\<close> received.
\<close>

definition listing_adapter :: "(string list, string, naming_error) adapter" where
  "listing_adapter =
     \<lparr> adapter_filetype_suffix = Some ''tfrecord'',
       do_files_exist = (\<lambda>w ps. list_all (\<lambda>p. p \<in> set w) ps),
       write_from_generator = (\<lambda>w g fs. (Inr (), fs @ w)) \<rparr>"


definition prepared_builder :: builder where
  "prepared_builder =
     \<lparr> name = ''mnist'', data_dir_root = ''/data'', data_dir = Some ''/data/mnist/v1'' \<rparr>"





definition record_build :: "string \<Rightarrow> bool \<Rightarrow> naming_error + (string \<times> bool)" where
  "record_build pattern shuffle = Inr (pattern, shuffle)"

section \<open>Facts about strings and paths\<close>

lemma py_in_iff_sublist: "py_in sub s \<longleftrightarrow> sublist sub s"
  by (induction s) (auto simp: sublist_Cons_right)

lemma py_in_iff: "py_in sub s \<longleftrightarrow> (\<exists>ps ss. s = ps @ sub @ ss)"
  by (simp add: py_in_iff_sublist sublist_def)

lemma os_path_join_eq_Nil: "os_path_join a b = [] \<longleftrightarrow> a = [] \<and> b = []"
  by (auto simp: os_path_join_def)

lemma last_filter_sort_Max:
  fixes xs :: "'a::linorder list"
  assumes "filter P (sort xs) \<noteq> []"
  shows "last (filter P (sort xs)) = Max {x \<in> set xs. P x}"
proof -
  let ?ys = "filter P (sort xs)"
  have srt: "sorted ?ys" by (rule sorted_wrt_filter) simp
  have st: "set ?ys = {x \<in> set xs. P x}" by auto
  have "last ?ys \<in> set ?ys" using assms by (rule last_in_set)
  moreover have "\<forall>y \<in> set ?ys. y \<le> last ?ys"
  proof
    fix y assume "y \<in> set ?ys"
    then obtain i where i: "i < length ?ys" "?ys ! i = y" by (metis in_set_conv_nth)
    have "?ys ! i \<le> ?ys ! (length ?ys - 1)"
      using srt i(1) by (intro sorted_nth_mono) auto
    then show "y \<le> last ?ys" using i(2) assms by (simp add: last_conv_nth)
  qed
  ultimately have "Max (set ?ys) = last ?ys"
    by (intro Max_eqI) auto
  then show ?thesis by (simp only: st)
qed

lemma version_dirnames_set:
  "set (version_dirnames listing) = {f \<in> set listing. \<not> py_in incomplete_marker f}"
  by (auto simp: version_dirnames_def)

lemma version_dirnames_last:
  "version_dirnames listing \<noteq> [] \<Longrightarrow>
   last (version_dirnames listing) = Max {f \<in> set listing. \<not> py_in incomplete_marker f}"
  unfolding version_dirnames_def by (rule last_filter_sort_Max)

section \<open>Version resolution\<close>

text \<open>
  C1. With a version argument \<open>_get_data_dir\<close> returns the joined root/name/version path
  and consults nothing. Without one it returns null when the dataset root does not exist;
  when the root exists and is listed, it returns null if no entry is free of the
  incomplete marker, and otherwise the path of the greatest such entry in lexicographic
  order.
\<close>

theorem get_data_dir_latest_version:
  "get_data_dir gf w b (Some v) =
     Inr (Some (os_path_join (os_path_join (data_dir_root b) (name b)) v)) \<and>
   (\<not> Exists gf w (os_path_join (data_dir_root b) (name b)) \<longrightarrow>
      get_data_dir gf w b None = Inr None) \<and>
   (Exists gf w (os_path_join (data_dir_root b) (name b)) \<and>
    ListDirectory gf w (os_path_join (data_dir_root b) (name b)) = Inr listing \<longrightarrow>
      get_data_dir gf w b None =
        (if {f \<in> set listing. \<not> sublist ''.incomplete'' f} = {} then Inr None
         else Inr (Some (os_path_join (os_path_join (data_dir_root b) (name b))
                 (Max {f \<in> set listing. \<not> sublist ''.incomplete'' f})))))"
proof (intro conjI impI)
  show "get_data_dir gf w b (Some v) =
     Inr (Some (os_path_join (os_path_join (data_dir_root b) (name b)) v))"
    by (simp add: get_data_dir_def)
next
  assume "\<not> Exists gf w (os_path_join (data_dir_root b) (name b))"
  then show "get_data_dir gf w b None = Inr None"
    by (simp add: get_data_dir_def)
next
  let ?root = "os_path_join (data_dir_root b) (name b)"
  let ?S = "{f \<in> set listing. \<not> sublist ''.incomplete'' f}"
  assume h: "Exists gf w ?root \<and> ListDirectory gf w ?root = Inr listing"
  have S: "set (version_dirnames listing) = ?S"
    by (simp add: version_dirnames_set incomplete_marker_def py_in_iff_sublist)
  show "get_data_dir gf w b None =
        (if ?S = {} then Inr None else Inr (Some (os_path_join ?root (Max ?S))))"
  proof (cases "version_dirnames listing = []")
    case True
    then have "?S = {}" using S by simp
    then show ?thesis using h True by (simp add: get_data_dir_def)
  next
    case False
    then have ne: "?S \<noteq> {}" using S by (metis set_empty)
    have "last (version_dirnames listing) = Max ?S"
      using version_dirnames_last [OF False]
      by (simp add: incomplete_marker_def py_in_iff_sublist)
    then show ?thesis using h False ne by (simp add: get_data_dir_def)
  qed
qed

theorem get_data_dir_latest_version_witness:
  "Exists disk_gfile example_disk (os_path_join (data_dir_root example_builder) (name example_builder)) \<and>
   ListDirectory disk_gfile example_disk
       (os_path_join (data_dir_root example_builder) (name example_builder)) =
     Inr [''v_20180601_1200.incomplete'', ''v_20180601_1200'', ''v_20180101_0000''] \<and>
   \<not> Exists disk_gfile [] (os_path_join (data_dir_root example_builder) (name example_builder)) \<and>
   get_data_dir disk_gfile [] example_builder None = Inr None \<and>
   get_data_dir disk_gfile example_disk example_builder None =
     Inr (Some ''/data/mnist/v_20180601_1200'') \<and>
   get_data_dir disk_gfile example_disk example_builder None =
     Inr (Some (os_path_join ''/data/mnist''
        (Max {f \<in> set [''v_20180601_1200.incomplete'', ''v_20180601_1200'', ''v_20180101_0000''].
                \<not> sublist ''.incomplete'' f})))"
proof -
  have r: "os_path_join (data_dir_root example_builder) (name example_builder) = ''/data/mnist''"
    by code_simp
  have e: "Exists disk_gfile example_disk ''/data/mnist''"
    by (simp add: disk_gfile_def example_disk_def)
  have l: "ListDirectory disk_gfile example_disk ''/data/mnist'' =
      Inr [''v_20180601_1200.incomplete'', ''v_20180601_1200'', ''v_20180101_0000'']"
    by (simp add: disk_gfile_def example_disk_def)
  have n: "\<not> Exists disk_gfile [] ''/data/mnist''"
    by (simp add: disk_gfile_def)
  have v: "get_data_dir disk_gfile example_disk example_builder None =
      Inr (Some ''/data/mnist/v_20180601_1200'')"
    by code_simp
  have ne: "{f \<in> set [''v_20180601_1200.incomplete'', ''v_20180601_1200'', ''v_20180101_0000''].
                \<not> sublist ''.incomplete'' f} \<noteq> {}"
  proof -
    have "\<not> py_in ''.incomplete'' ''v_20180601_1200''" by code_simp
    then show ?thesis by (auto simp: py_in_iff_sublist)
  qed
  note t = get_data_dir_latest_version [of disk_gfile _ example_builder, unfolded r]
  have a: "get_data_dir disk_gfile [] example_builder None = Inr None"
    using t [of "[]"] n by blast
  have b: "get_data_dir disk_gfile example_disk example_builder None =
     Inr (Some (os_path_join ''/data/mnist''
        (Max {f \<in> set [''v_20180601_1200.incomplete'', ''v_20180601_1200'', ''v_20180101_0000''].
                \<not> sublist ''.incomplete'' f})))"
    using t [of example_disk] e l ne by (simp del: set_simps)
  show ?thesis unfolding r using e l n a v b by blast
qed

text \<open>
  C10. The marker test is a substring test: whenever the root is listed, a resolved path
  is the join of the root with an entry that contains \<open>.incomplete\<close> nowhere, and when
  every entry contains it somewhere (not only as a suffix) the result is null, however
  many entries there are.
\<close>

theorem get_data_dir_excludes_marker_anywhere:
  "Exists gf w (os_path_join (data_dir_root b) (name b)) \<and>
   ListDirectory gf w (os_path_join (data_dir_root b) (name b)) = Inr listing \<longrightarrow>
     (\<forall>p. get_data_dir gf w b None = Inr (Some p) \<longrightarrow>
        (\<exists>f \<in> set listing. (\<nexists>ps ss. f = ps @ ''.incomplete'' @ ss) \<and>
           p = os_path_join (os_path_join (data_dir_root b) (name b)) f)) \<and>
     ((\<forall>f \<in> set listing. \<exists>ps ss. f = ps @ ''.incomplete'' @ ss) \<longrightarrow>
        get_data_dir gf w b None = Inr None)"
proof (intro impI conjI allI)
  let ?root = "os_path_join (data_dir_root b) (name b)"
  assume h: "Exists gf w ?root \<and> ListDirectory gf w ?root = Inr listing"
  {
    fix p assume p: "get_data_dir gf w b None = Inr (Some p)"
    then have ne: "version_dirnames listing \<noteq> []"
      and pe: "p = os_path_join ?root (last (version_dirnames listing))"
      using h by (auto simp: get_data_dir_def Let_def split: if_splits)
    have "last (version_dirnames listing) \<in> set (version_dirnames listing)"
      using ne by (rule last_in_set)
    then have "last (version_dirnames listing) \<in> set listing"
      and "\<not> py_in ''.incomplete'' (last (version_dirnames listing))"
      by (simp_all add: version_dirnames_set incomplete_marker_def)
    then show "\<exists>f \<in> set listing. (\<nexists>ps ss. f = ps @ ''.incomplete'' @ ss) \<and> p = os_path_join ?root f"
      using pe by (auto simp: py_in_iff)
  }
  {
    assume "\<forall>f \<in> set listing. \<exists>ps ss. f = ps @ ''.incomplete'' @ ss"
    then have "\<forall>f \<in> set listing. py_in incomplete_marker f"
      by (simp add: py_in_iff incomplete_marker_def)
    then have "version_dirnames listing = []"
      by (auto simp: version_dirnames_def filter_empty_conv)
    then show "get_data_dir gf w b None = Inr None"
      using h by (simp add: get_data_dir_def)
  }
qed

theorem get_data_dir_excludes_marker_anywhere_witness:
  "Exists disk_gfile staging_only_disk ''/data/mnist'' \<and>
   ListDirectory disk_gfile staging_only_disk ''/data/mnist'' =
     Inr [''v_20180601_1200.incomplete'', ''v_20180101_0000.incomplete.bak''] \<and>
   (\<exists>ps ss. ''v_20180601_1200.incomplete'' = ps @ ''.incomplete'' @ ss) \<and>
   (\<exists>ps ss. ''v_20180101_0000.incomplete.bak'' = ps @ ''.incomplete'' @ ss) \<and>
   get_data_dir disk_gfile staging_only_disk example_builder None = Inr None \<and>
   get_data_dir disk_gfile example_disk example_builder None =
     Inr (Some ''/data/mnist/v_20180601_1200'') \<and>
   (\<exists>f \<in> set [''v_20180601_1200.incomplete'', ''v_20180601_1200'', ''v_20180101_0000''].
      (\<nexists>ps ss. f = ps @ ''.incomplete'' @ ss) \<and>
      ''/data/mnist/v_20180601_1200'' = os_path_join ''/data/mnist'' f)"
proof -
  have r: "os_path_join (data_dir_root example_builder) (name example_builder) = ''/data/mnist''"
    by code_simp
  have e: "Exists disk_gfile staging_only_disk ''/data/mnist''"
    by (simp add: disk_gfile_def staging_only_disk_def)
  have l: "ListDirectory disk_gfile staging_only_disk ''/data/mnist'' =
      Inr [''v_20180601_1200.incomplete'', ''v_20180101_0000.incomplete.bak'']"
    by (simp add: disk_gfile_def staging_only_disk_def)
  have m1: "py_in ''.incomplete'' ''v_20180601_1200.incomplete''" by code_simp
  have m2: "py_in ''.incomplete'' ''v_20180101_0000.incomplete.bak''" by code_simp
  have m: "\<forall>f \<in> set [''v_20180601_1200.incomplete'', ''v_20180101_0000.incomplete.bak''].
      \<exists>ps ss. f = ps @ ''.incomplete'' @ ss"
    using m1 m2 by (simp add: py_in_iff)
  have e2: "Exists disk_gfile example_disk ''/data/mnist''"
    by (simp add: disk_gfile_def example_disk_def)
  have l2: "ListDirectory disk_gfile example_disk ''/data/mnist'' =
      Inr [''v_20180601_1200.incomplete'', ''v_20180601_1200'', ''v_20180101_0000'']"
    by (simp add: disk_gfile_def example_disk_def)
  have v: "get_data_dir disk_gfile example_disk example_builder None =
      Inr (Some ''/data/mnist/v_20180601_1200'')"
    by code_simp
  note t = get_data_dir_excludes_marker_anywhere [of disk_gfile _ example_builder, unfolded r]
  have a: "get_data_dir disk_gfile staging_only_disk example_builder None = Inr None"
    using t [of staging_only_disk] e l m by blast
  have b: "\<exists>f \<in> set [''v_20180601_1200.incomplete'', ''v_20180601_1200'', ''v_20180101_0000''].
      (\<nexists>ps ss. f = ps @ ''.incomplete'' @ ss) \<and>
      ''/data/mnist/v_20180601_1200'' = os_path_join ''/data/mnist'' f"
    using t [of example_disk] e2 l2 v by blast
  have m1': "\<exists>ps ss. ''v_20180601_1200.incomplete'' = ps @ ''.incomplete'' @ ss"
    using m1 by (simp only: py_in_iff)
  have m2': "\<exists>ps ss. ''v_20180101_0000.incomplete.bak'' = ps @ ''.incomplete'' @ ss"
    using m2 by (simp only: py_in_iff)
  show ?thesis using e l m1' m2' a v b by blast
qed

section \<open>Shape assertion\<close>

lemma shape_pairs_all:
  "length s1 = length s2 \<Longrightarrow>
   list_all (\<lambda>(a, b). a = b) (filter (\<lambda>(a, b). b \<noteq> None) (zip s1 s2)) \<longleftrightarrow>
   (\<forall>i < length s2. s2 ! i = None \<or> s1 ! i = s2 ! i)"
proof (induction s1 s2 rule: list_induct2)
  case Nil
  then show ?case by simp
next
  case (Cons x xs y ys)
  have "(\<forall>i < length (y # ys). (y # ys) ! i = None \<or> (x # xs) ! i = (y # ys) ! i) \<longleftrightarrow>
        (y = None \<or> x = y) \<and> (\<forall>i < length ys. ys ! i = None \<or> xs ! i = ys ! i)"
    by (auto simp: less_Suc_eq_0_disj)
  then show ?case using Cons.IH by (cases y) auto
qed

lemma shapes_agree_iff:
  "shapes_agree s1 s2 \<longleftrightarrow>
     length s1 = length s2 \<and> (\<forall>i < length s2. s2 ! i = None \<or> s1 ! i = s2 ! i)"
  by (auto simp: shapes_agree_def list_all_iff)

text \<open>
  C7 (as stated). The claim has every failure name both shapes. Shapes of different
  lengths fail in the first branch, whose message names the two lengths only.
\<close>

theorem assert_shape_match_length_counterexample:
  "(assert_shape_match [Some 64, Some 64, Some 3] [Some 64, Some 64] :: unit py_error + unit) =
     Inl (ValueError ''Shapes should have same length: 3 - 2'') \<and>
   repr_tuple [Some 64, Some 64, Some 3] = ''(64, 64, 3)'' \<and>
   repr_tuple [Some 64, Some 64] = ''(64, 64)'' \<and>
   \<not> sublist ''(64, 64, 3)'' ''Shapes should have same length: 3 - 2'' \<and>
   \<not> sublist ''(64, 64)'' ''Shapes should have same length: 3 - 2''"
proof -
  have a: "(assert_shape_match [Some 64, Some 64, Some 3] [Some 64, Some 64] :: unit py_error + unit) =
     Inl (ValueError ''Shapes should have same length: 3 - 2'')"
    by code_simp
  have b: "repr_tuple [Some 64, Some 64, Some 3] = ''(64, 64, 3)''" by code_simp
  have c: "repr_tuple [Some 64, Some 64] = ''(64, 64)''" by code_simp
  have d: "\<not> py_in ''(64, 64, 3)'' ''Shapes should have same length: 3 - 2''" by code_simp
  have e: "\<not> py_in ''(64, 64)'' ''Shapes should have same length: 3 - 2''" by code_simp
  show ?thesis using a b c d e by (simp only: py_in_iff_sublist simp_thms)
qed

text \<open>
  C7 (amended). \<open>assert_shape_match\<close> succeeds exactly when the shapes have equal length
  and agree at every position where the second is not \<open>None\<close>. When the lengths differ
  it fails with a \<open>ValueError\<close> naming the two lengths; when the lengths are equal and a
  position disagrees it fails with a \<open>ValueError\<close> whose message names both shapes.
\<close>

theorem assert_shape_match_outcomes:
  "((assert_shape_match s1 s2 :: 'x py_error + unit) = Inr () \<longleftrightarrow>
      length s1 = length s2 \<and> (\<forall>i < length s2. s2 ! i = None \<or> s1 ! i = s2 ! i)) \<and>
   (length s1 \<noteq> length s2 \<longrightarrow>
      (assert_shape_match s1 s2 :: 'x py_error + unit) =
        Inl (ValueError (''Shapes should have same length: '' @ str_nat (length s1)
                           @ '' - '' @ str_nat (length s2)))) \<and>
   (length s1 = length s2 \<and> \<not> (\<forall>i < length s2. s2 ! i = None \<or> s1 ! i = s2 ! i) \<longrightarrow>
      (\<exists>msg. (assert_shape_match s1 s2 :: 'x py_error + unit) = Inl (ValueError msg) \<and>
             sublist (repr_tuple s1) msg \<and> sublist (repr_tuple s2) msg))"
proof (intro conjI impI)
  show "((assert_shape_match s1 s2 :: 'x py_error + unit) = Inr ()) =
      (length s1 = length s2 \<and> (\<forall>i < length s2. s2 ! i = None \<or> s1 ! i = s2 ! i))"
    using shape_pairs_all [of s1 s2]
    by (cases "length s1 = length s2") (simp_all add: assert_shape_match_def)
next
  assume "length s1 \<noteq> length s2"
  then show "(assert_shape_match s1 s2 :: 'x py_error + unit) =
        Inl (ValueError (''Shapes should have same length: '' @ str_nat (length s1)
                           @ '' - '' @ str_nat (length s2)))"
    by (simp add: assert_shape_match_def)
next
  assume h: "length s1 = length s2 \<and> \<not> (\<forall>i < length s2. s2 ! i = None \<or> s1 ! i = s2 ! i)"
  let ?msg = "''Shape '' @ repr_tuple s1 @ '' do not match '' @ repr_tuple s2"
  have "(assert_shape_match s1 s2 :: 'x py_error + unit) = Inl (ValueError ?msg)"
    using h shape_pairs_all [of s1 s2] by (simp add: assert_shape_match_def)
  moreover have "sublist (repr_tuple s1) ?msg"
    by (rule sublist_appendI)
  moreover have "sublist (repr_tuple s2) ?msg"
    using sublist_append_leftI [of "repr_tuple s2" "''Shape '' @ repr_tuple s1 @ '' do not match ''"]
    by simp
  ultimately show "\<exists>msg. (assert_shape_match s1 s2 :: 'x py_error + unit) = Inl (ValueError msg) \<and>
             sublist (repr_tuple s1) msg \<and> sublist (repr_tuple s2) msg"
    by blast
qed

theorem assert_shape_match_outcomes_witness:
  "(assert_shape_match [Some 64, Some 64, Some 3] [None, None, Some 3] :: unit py_error + unit) = Inr () \<and>
   shapes_agree [Some 64, Some 64, Some 3] [None, None, Some 3] \<and>
   \<not> shapes_agree [Some 64, Some 64, Some 3] [Some 64, Some 64, Some 4] \<and>
   (assert_shape_match [Some 64, Some 64, Some 3] [Some 64, Some 64, Some 4] :: unit py_error + unit) =
     Inl (ValueError ''Shape (64, 64, 3) do not match (64, 64, 4)'') \<and>
   (\<exists>msg. (assert_shape_match [Some 64, Some 64, Some 3] [Some 64, Some 64, Some 4] :: unit py_error + unit) =
       Inl (ValueError msg) \<and>
       sublist (repr_tuple [Some 64, Some 64, Some 3]) msg \<and>
       sublist (repr_tuple [Some 64, Some 64, Some 4]) msg) \<and>
   length [Some 64, Some 64, Some (3::int)] \<noteq> length [Some 64, Some (64::int)] \<and>
   (assert_shape_match [Some 64, Some 64, Some 3] [Some 64, Some 64] :: unit py_error + unit) =
     Inl (ValueError (''Shapes should have same length: '' @ str_nat 3 @ '' - '' @ str_nat 2))"
proof -
  note t = assert_shape_match_outcomes [where 'x = unit]
  note t1 = t [THEN conjunct1]
  note t2 = t [THEN conjunct2, THEN conjunct1]
  note t3 = t [THEN conjunct2, THEN conjunct2]
  have g1: "shapes_agree [Some 64, Some 64, Some 3] [None, None, Some 3]" by code_simp
  have g2: "\<not> shapes_agree [Some 64, Some 64, Some 3] [Some 64, Some 64, Some 4]" by code_simp
  have a: "(assert_shape_match [Some 64, Some 64, Some 3] [None, None, Some 3] :: unit py_error + unit) = Inr ()"
    by (rule iffD2 [OF t1 g1 [unfolded shapes_agree_iff]])
  have le: "length [Some 64, Some 64, Some (3::int)] = length [Some 64, Some 64, Some (4::int)]"
    by simp
  have g2': "\<not> (\<forall>i < length [Some 64, Some 64, Some (4::int)].
       [Some 64, Some 64, Some (4::int)] ! i = None \<or>
       [Some 64, Some 64, Some (3::int)] ! i = [Some 64, Some 64, Some 4] ! i)"
    using g2 [unfolded shapes_agree_iff] le by (simp only: simp_thms)
  have b: "\<exists>msg. (assert_shape_match [Some 64, Some 64, Some 3] [Some 64, Some 64, Some 4] :: unit py_error + unit) =
       Inl (ValueError msg) \<and>
       sublist (repr_tuple [Some 64, Some 64, Some 3]) msg \<and>
       sublist (repr_tuple [Some 64, Some 64, Some 4]) msg"
    by (rule mp [OF t3 conjI [OF le g2']])
  have c: "(assert_shape_match [Some 64, Some 64, Some 3] [Some 64, Some 64, Some 4] :: unit py_error + unit) =
     Inl (ValueError ''Shape (64, 64, 3) do not match (64, 64, 4)'')"
    by code_simp
  have l: "length [Some 64, Some 64, Some (3::int)] \<noteq> length [Some 64, Some (64::int)]" by simp
  have d: "(assert_shape_match [Some 64, Some 64, Some 3] [Some 64, Some 64] :: unit py_error + unit) =
     Inl (ValueError (''Shapes should have same length: '' @ str_nat 3 @ '' - '' @ str_nat 2))"
    using mp [OF t2 l] by simp
  show ?thesis by (intro conjI a g1 g2 c b l d)
qed

section \<open>The graph runner's cache\<close>

lemma card_dom_fresh:
  assumes "finite (dom m)" and "m k = None"
  shows "card (dom (m(k \<mapsto> v))) = card (dom m) + 1"
proof -
  have "k \<notin> dom m" using assms(2) by (simp add: domIff)
  then show ?thesis using assms(1) by simp
qed

lemma run_hit:
  assumes "\<not> executing_eagerly tf"
    and "arr = (if is_ndarray tf x then x else np_array tf x)"
    and "graph_run_cache self (py_id tf f, dtype tf arr, shape tf arr) = Some gr"
  shows "run tf self f x w =
       (case session_run tf w (session gr) (run_output gr) (placeholder gr) arr of
          (Inl e, w1) \<Rightarrow> (Inl (Raised e), self, w1)
        | (Inr v, w1) \<Rightarrow> (Inr v, self, w1))"
  using assms
  by (auto simp: run_def build_signature_def feed_def Let_def split: prod.splits sum.splits)

lemma run_miss_built:
  assumes "\<not> executing_eagerly tf"
    and "arr = (if is_ndarray tf x then x else np_array tf x)"
    and "graph_run_cache self (py_id tf f, dtype tf arr, shape tf arr) = None"
    and "Graph tf w = (g, w1)"
    and "call_graph tf w1 g f (tf_placeholder tf g (dtype tf arr) (shape tf arr)) = (Inr out, w2)"
    and "Session tf w2 g = (s, w3)"
  shows "run tf self f x w =
       (case session_run tf w3 s out (tf_placeholder tf g (dtype tf arr) (shape tf arr)) arr of
          (Inl e, w4) \<Rightarrow>
            (Inl (Raised e),
             self \<lparr> graph_run_cache := (graph_run_cache self)
               ((py_id tf f, dtype tf arr, shape tf arr) \<mapsto>
                  \<lparr> graph = g, session = s,
                    placeholder = tf_placeholder tf g (dtype tf arr) (shape tf arr),
                    run_output = out \<rparr>) \<rparr>, w4)
        | (Inr v, w4) \<Rightarrow>
            (Inr v,
             self \<lparr> graph_run_cache := (graph_run_cache self)
               ((py_id tf f, dtype tf arr, shape tf arr) \<mapsto>
                  \<lparr> graph = g, session = s,
                    placeholder = tf_placeholder tf g (dtype tf arr) (shape tf arr),
                    run_output = out \<rparr>) \<rparr>, w4))"
  using assms
  by (auto simp: run_def build_signature_def build_graph_run_def feed_def Let_def
           split: prod.splits sum.splits)

lemma run_miss_built_cache:
  assumes "\<not> executing_eagerly tf"
    and "arr = (if is_ndarray tf x then x else np_array tf x)"
    and "graph_run_cache self (py_id tf f, dtype tf arr, shape tf arr) = None"
    and "Graph tf w = (g, w1)"
    and "call_graph tf w1 g f (tf_placeholder tf g (dtype tf arr) (shape tf arr)) = (Inr out, w2)"
    and "Session tf w2 g = (s, w3)"
  shows "graph_run_cache (fst (snd (run tf self f x w))) =
       (graph_run_cache self)
         ((py_id tf f, dtype tf arr, shape tf arr) \<mapsto>
            \<lparr> graph = g, session = s,
              placeholder = tf_placeholder tf g (dtype tf arr) (shape tf arr),
              run_output = out \<rparr>)"
  by (simp add: run_miss_built [OF assms] split: prod.splits sum.splits)

lemma run_miss_failed:
  assumes "\<not> executing_eagerly tf"
    and "arr = (if is_ndarray tf x then x else np_array tf x)"
    and "graph_run_cache self (py_id tf f, dtype tf arr, shape tf arr) = None"
    and "Graph tf w = (g, w1)"
    and "call_graph tf w1 g f (tf_placeholder tf g (dtype tf arr) (shape tf arr)) = (Inl e, w2)"
  shows "run tf self f x w = (Inl (Raised e), self, w2)"
  using assms
  by (auto simp: run_def build_signature_def build_graph_run_def Let_def
           split: prod.splits sum.splits)

lemma run_eager:
  assumes "executing_eagerly tf"
  shows "run tf self f x w =
       (case call_eager tf w f x of
          (Inl e, w1) \<Rightarrow> (Inl (Raised e), self, w1)
        | (Inr t, w1) \<Rightarrow> (Inr (numpy tf t), self, w1))"
  using assms by (simp add: run_def)
text \<open>
  C5 (as stated). The claim has every deferred-mode call with an unseen triple add one
  cache entry. When the function raises while the graph is built, the call fails before
  the store: the triple was unseen, and the cache is as it was.
\<close>

theorem run_unseen_triple_counterexample:
  "\<not> executing_eagerly (toy_tf False) \<and>
   graph_run_cache (new_runner :: (unit, nat, nat, nat) TFGraphRunner) (13, (), [3]) = None \<and>
   run (toy_tf False) new_runner 13 [1, 2, 3] 0 = (Inl (Raised ()), new_runner, 1) \<and>
   dom (graph_run_cache (fst (snd (run (toy_tf False) new_runner 13 [1, 2, 3] 0)))) = {}"
proof -
  have a: "\<not> executing_eagerly (toy_tf False)" by (simp add: toy_tf_def)
  have b: "graph_run_cache (new_runner :: (unit, nat, nat, nat) TFGraphRunner) (13, (), [3]) = None"
    by (simp add: new_runner_def)
  have c: "run (toy_tf False) new_runner 13 [1, 2, 3] 0 = (Inl (Raised ()), new_runner, 1)"
    by (simp add: run_def build_signature_def build_graph_run_def toy_tf_def new_runner_def)
  have d: "dom (graph_run_cache (fst (snd (run (toy_tf False) new_runner 13 [1, 2, 3] 0)))) = {}"
    by (simp add: c) (simp add: new_runner_def)
  show ?thesis by (intro conjI a b c d)
qed

text \<open>
  C5 (amended). In deferred mode the cache is keyed by (identity of the function, dtype
  of the input array, shape of the input array), the input being converted to an array
  unless it is one. A call whose key is stored leaves the runner as it is and makes one
  framework call: it runs the stored session on the stored output and placeholder. A call
  whose key is not stored creates a graph, a placeholder of that dtype and shape, the
  output of the function on it, and a session; if that succeeds it stores the four under
  exactly that key, so a finite cache grows by one entry, and runs that session; a second
  call with the same function and an input of the same dtype and shape then leaves the
  runner unchanged and runs the session the first call created. If the function raises on
  the placeholder the error propagates and the runner is unchanged. In immediate mode the
  function is applied to the input, the result is materialised, and the runner is not
  touched.
\<close>

theorem run_cache_by_signature:
  "(\<not> executing_eagerly tf \<and> arr = (if is_ndarray tf x then x else np_array tf x) \<and>
    graph_run_cache self (py_id tf f, dtype tf arr, shape tf arr) = Some gr \<longrightarrow>
      run tf self f x w =
        (case session_run tf w (session gr) (run_output gr) (placeholder gr) arr of
           (Inl e, w1) \<Rightarrow> (Inl (Raised e), self, w1)
         | (Inr v, w1) \<Rightarrow> (Inr v, self, w1))) \<and>
   (\<not> executing_eagerly tf \<and> arr = (if is_ndarray tf x then x else np_array tf x) \<and>
    graph_run_cache self (py_id tf f, dtype tf arr, shape tf arr) = None \<and>
    Graph tf w = (g, w1) \<and>
    call_graph tf w1 g f (tf_placeholder tf g (dtype tf arr) (shape tf arr)) = (Inr out, w2) \<and>
    Session tf w2 g = (s, w3) \<longrightarrow>
      run tf self f x w =
        (case session_run tf w3 s out (tf_placeholder tf g (dtype tf arr) (shape tf arr)) arr of
           (Inl e, w4) \<Rightarrow>
             (Inl (Raised e),
              self \<lparr> graph_run_cache := (graph_run_cache self)
                ((py_id tf f, dtype tf arr, shape tf arr) \<mapsto>
                   \<lparr> graph = g, session = s,
                     placeholder = tf_placeholder tf g (dtype tf arr) (shape tf arr),
                     run_output = out \<rparr>) \<rparr>, w4)
         | (Inr v, w4) \<Rightarrow>
             (Inr v,
              self \<lparr> graph_run_cache := (graph_run_cache self)
                ((py_id tf f, dtype tf arr, shape tf arr) \<mapsto>
                   \<lparr> graph = g, session = s,
                     placeholder = tf_placeholder tf g (dtype tf arr) (shape tf arr),
                     run_output = out \<rparr>) \<rparr>, w4)) \<and>
      dom (graph_run_cache (fst (snd (run tf self f x w)))) =
        insert (py_id tf f, dtype tf arr, shape tf arr) (dom (graph_run_cache self)) \<and>
      (finite (dom (graph_run_cache self)) \<longrightarrow>
         card (dom (graph_run_cache (fst (snd (run tf self f x w))))) =
           card (dom (graph_run_cache self)) + 1) \<and>
      (arr2 = (if is_ndarray tf y then y else np_array tf y) \<and>
       dtype tf arr2 = dtype tf arr \<and> shape tf arr2 = shape tf arr \<longrightarrow>
         run tf (fst (snd (run tf self f x w))) f y w5 =
           (case session_run tf w5 s out (tf_placeholder tf g (dtype tf arr) (shape tf arr)) arr2 of
              (Inl e, w6) \<Rightarrow> (Inl (Raised e), fst (snd (run tf self f x w)), w6)
            | (Inr v, w6) \<Rightarrow> (Inr v, fst (snd (run tf self f x w)), w6)))) \<and>
   (\<not> executing_eagerly tf \<and> arr = (if is_ndarray tf x then x else np_array tf x) \<and>
    graph_run_cache self (py_id tf f, dtype tf arr, shape tf arr) = None \<and>
    Graph tf w = (g, w1) \<and>
    call_graph tf w1 g f (tf_placeholder tf g (dtype tf arr) (shape tf arr)) = (Inl e, w2) \<longrightarrow>
      run tf self f x w = (Inl (Raised e), self, w2)) \<and>
   (executing_eagerly tf \<longrightarrow>
      run tf self f x w =
        (case call_eager tf w f x of
           (Inl e, w1) \<Rightarrow> (Inl (Raised e), self, w1)
         | (Inr t, w1) \<Rightarrow> (Inr (numpy tf t), self, w1)))"
proof (intro conjI impI)
  assume "\<not> executing_eagerly tf \<and> arr = (if is_ndarray tf x then x else np_array tf x) \<and>
    graph_run_cache self (py_id tf f, dtype tf arr, shape tf arr) = Some gr"
  then have h1: "\<not> executing_eagerly tf"
    and h2: "arr = (if is_ndarray tf x then x else np_array tf x)"
    and h3: "graph_run_cache self (py_id tf f, dtype tf arr, shape tf arr) = Some gr"
    by blast+
  show "run tf self f x w =
        (case session_run tf w (session gr) (run_output gr) (placeholder gr) arr of
           (Inl e, w1) \<Rightarrow> (Inl (Raised e), self, w1)
         | (Inr v, w1) \<Rightarrow> (Inr v, self, w1))"
    by (rule run_hit [OF h1 h2 h3])
next
  let ?k = "(py_id tf f, dtype tf arr, shape tf arr)"
  let ?gr = "\<lparr> graph = g, session = s,
               placeholder = tf_placeholder tf g (dtype tf arr) (shape tf arr),
               run_output = out \<rparr>"
  assume h: "\<not> executing_eagerly tf \<and> arr = (if is_ndarray tf x then x else np_array tf x) \<and>
    graph_run_cache self (py_id tf f, dtype tf arr, shape tf arr) = None \<and>
    Graph tf w = (g, w1) \<and>
    call_graph tf w1 g f (tf_placeholder tf g (dtype tf arr) (shape tf arr)) = (Inr out, w2) \<and>
    Session tf w2 g = (s, w3)"
  then have h1: "\<not> executing_eagerly tf"
    and h2: "arr = (if is_ndarray tf x then x else np_array tf x)"
    and h3: "graph_run_cache self ?k = None"
    and h4: "Graph tf w = (g, w1)"
    and h5: "call_graph tf w1 g f (tf_placeholder tf g (dtype tf arr) (shape tf arr)) = (Inr out, w2)"
    and h6: "Session tf w2 g = (s, w3)"
    by blast+
  show "run tf self f x w =
        (case session_run tf w3 s out (tf_placeholder tf g (dtype tf arr) (shape tf arr)) arr of
           (Inl e, w4) \<Rightarrow>
             (Inl (Raised e), self \<lparr> graph_run_cache := (graph_run_cache self)(?k \<mapsto> ?gr) \<rparr>, w4)
         | (Inr v, w4) \<Rightarrow>
             (Inr v, self \<lparr> graph_run_cache := (graph_run_cache self)(?k \<mapsto> ?gr) \<rparr>, w4))"
    by (rule run_miss_built [OF h1 h2 h3 h4 h5 h6])
  have c: "graph_run_cache (fst (snd (run tf self f x w))) = (graph_run_cache self)(?k \<mapsto> ?gr)"
    by (rule run_miss_built_cache [OF h1 h2 h3 h4 h5 h6])
  show "dom (graph_run_cache (fst (snd (run tf self f x w)))) = insert ?k (dom (graph_run_cache self))"
    by (simp add: c)
  {
    assume "finite (dom (graph_run_cache self))"
    then show "card (dom (graph_run_cache (fst (snd (run tf self f x w))))) =
           card (dom (graph_run_cache self)) + 1"
      unfolding c using h3 by (rule card_dom_fresh)
  }
  {
    assume y: "arr2 = (if is_ndarray tf y then y else np_array tf y) \<and>
       dtype tf arr2 = dtype tf arr \<and> shape tf arr2 = shape tf arr"
    then have y1: "arr2 = (if is_ndarray tf y then y else np_array tf y)"
      and y2: "dtype tf arr2 = dtype tf arr" and y3: "shape tf arr2 = shape tf arr"
      by blast+
    have y4: "graph_run_cache (fst (snd (run tf self f x w)))
            (py_id tf f, dtype tf arr2, shape tf arr2) = Some ?gr"
      by (simp add: c y2 y3)
    from run_hit [OF h1 y1 y4, of w5]
    show "run tf (fst (snd (run tf self f x w))) f y w5 =
           (case session_run tf w5 s out (tf_placeholder tf g (dtype tf arr) (shape tf arr)) arr2 of
              (Inl e, w6) \<Rightarrow> (Inl (Raised e), fst (snd (run tf self f x w)), w6)
            | (Inr v, w6) \<Rightarrow> (Inr v, fst (snd (run tf self f x w)), w6))"
      by simp
  }
next
  assume "\<not> executing_eagerly tf \<and> arr = (if is_ndarray tf x then x else np_array tf x) \<and>
    graph_run_cache self (py_id tf f, dtype tf arr, shape tf arr) = None \<and>
    Graph tf w = (g, w1) \<and>
    call_graph tf w1 g f (tf_placeholder tf g (dtype tf arr) (shape tf arr)) = (Inl e, w2)"
  then have h1: "\<not> executing_eagerly tf"
    and h2: "arr = (if is_ndarray tf x then x else np_array tf x)"
    and h3: "graph_run_cache self (py_id tf f, dtype tf arr, shape tf arr) = None"
    and h4: "Graph tf w = (g, w1)"
    and h5: "call_graph tf w1 g f (tf_placeholder tf g (dtype tf arr) (shape tf arr)) = (Inl e, w2)"
    by blast+
  show "run tf self f x w = (Inl (Raised e), self, w2)"
    by (rule run_miss_failed [OF h1 h2 h3 h4 h5])
next
  assume "executing_eagerly tf"
  then show "run tf self f x w =
        (case call_eager tf w f x of
           (Inl e, w1) \<Rightarrow> (Inl (Raised e), self, w1)
         | (Inr t, w1) \<Rightarrow> (Inr (numpy tf t), self, w1))"
    by (rule run_eager)
qed
theorem run_cache_by_signature_witness:
  "\<not> executing_eagerly (toy_tf False) \<and>
   graph_run_cache (new_runner :: (unit, nat, nat, nat) TFGraphRunner) (7, (), [3]) = None \<and>
   Graph (toy_tf False) 0 = (0, 1) \<and>
   call_graph (toy_tf False) 1 0 7 (tf_placeholder (toy_tf False) 0 () [3]) = (Inr 10, 1) \<and>
   Session (toy_tf False) 1 0 = (1, 2) \<and>
   run (toy_tf False) new_runner 7 [1, 2, 3] 0 =
     (Inr [12, 13, 14],
      \<lparr> graph_run_cache =
          [(7, (), [3]) \<mapsto> \<lparr> graph = 0, session = 1, placeholder = 3, run_output = 10 \<rparr>] \<rparr>,
      2) \<and>
   card (dom (graph_run_cache (fst (snd (run (toy_tf False) new_runner 7 [1, 2, 3] 0))))) = 1 \<and>
   run (toy_tf False) (fst (snd (run (toy_tf False) new_runner 7 [1, 2, 3] 0))) 7 [4, 5, 6] 2 =
     (Inr [15, 16, 17], fst (snd (run (toy_tf False) new_runner 7 [1, 2, 3] 0)), 2) \<and>
   run (toy_tf False)
       \<lparr> graph_run_cache =
           [(7, (), [3]) \<mapsto> \<lparr> graph = 5, session = 40, placeholder = 0, run_output = 2 \<rparr>] \<rparr>
       7 [1, 2, 3] 0 =
     (Inr [43, 44, 45],
      \<lparr> graph_run_cache =
          [(7, (), [3]) \<mapsto> \<lparr> graph = 5, session = 40, placeholder = 0, run_output = 2 \<rparr>] \<rparr>,
      0) \<and>
   call_graph (toy_tf False) 1 0 13 (tf_placeholder (toy_tf False) 0 () [3]) = (Inl (), 1) \<and>
   run (toy_tf False) (new_runner :: (unit, nat, nat, nat) TFGraphRunner) 13 [1, 2, 3] 0 =
     (Inl (Raised ()), new_runner, 1) \<and>
   executing_eagerly (toy_tf True) \<and>
   run (toy_tf True) (new_runner :: (unit, nat, nat, nat) TFGraphRunner) 7 [1, 2, 3] 0 =
     (Inr [0, 0, 0], new_runner, 0)"
proof -
  let ?tf = "toy_tf False"
  let ?r0 = "new_runner :: (unit, nat, nat, nat) TFGraphRunner"
  let ?gr = "\<lparr> graph = 0::nat, session = 1::nat, placeholder = 3::nat, run_output = 10::nat \<rparr>"
  let ?old = "\<lparr> graph = 5::nat, session = 40::nat, placeholder = 0::nat, run_output = 2::nat \<rparr>"
  let ?r1 = "\<lparr> graph_run_cache = [(7, (), [3]) \<mapsto> ?gr] \<rparr>"
  let ?r2 = "\<lparr> graph_run_cache = [(7, (), [3]) \<mapsto> ?old] \<rparr>"
  have arr: "\<And>a. (if is_ndarray ?tf a then a else np_array ?tf a) = a" by (simp add: toy_tf_def)
  have ids: "\<And>f. py_id ?tf f = f" "\<And>a. dtype ?tf a = ()" by (simp_all add: toy_tf_def)
  have sh: "shape ?tf [1, 2, 3] = [3]" "shape ?tf [4, 5, 6] = [3]" by (simp_all add: toy_tf_def)
  have ph: "tf_placeholder ?tf 0 () [3] = 3" by (simp add: toy_tf_def)
  have sr: "\<And>w s out p a. session_run ?tf w s out p a = (Inr (map (\<lambda>v. v + int s + int out) a), w)"
    by (simp add: toy_tf_def)
  have ne: "\<not> executing_eagerly ?tf" by (simp add: toy_tf_def)
  have c0: "\<And>k. graph_run_cache ?r0 k = None" by (simp add: new_runner_def)
  have gph: "Graph ?tf 0 = (0, 1)" by (simp add: toy_tf_def)
  have cg: "call_graph ?tf 1 0 7 (tf_placeholder ?tf 0 () [3]) = (Inr 10, 1)"
    by (simp add: toy_tf_def)
  have cgf: "call_graph ?tf 1 0 13 (tf_placeholder ?tf 0 () [3]) = (Inl (), 1)"
    by (simp add: toy_tf_def)
  have ss: "Session ?tf 1 0 = (1, 2)" by (simp add: toy_tf_def)
  have fin: "finite (dom (graph_run_cache ?r0))" by (simp add: new_runner_def)
  note built = run_cache_by_signature [where tf = ?tf and self = ?r0 and f = 7 and x = "[1, 2, 3]"
      and arr = "[1, 2, 3]" and w = 0 and g = 0 and ?w1.0 = 1 and out = 10 and ?w2.0 = 1
      and s = 1 and ?w3.0 = 2 and y = "[4, 5, 6]" and ?arr2.0 = "[4, 5, 6]" and ?w5.0 = 2,
      THEN conjunct2, THEN conjunct1, unfolded arr ids sh, THEN mp,
      OF conjI [OF ne conjI [OF refl conjI [OF c0 conjI [OF gph conjI [OF cg ss]]]]]]
  have r1: "run ?tf ?r0 7 [1, 2, 3] 0 = (Inr [12, 13, 14], ?r1, 2)"
    using built [THEN conjunct1] by (simp add: ph sr new_runner_def)
  have cd: "card (dom (graph_run_cache (fst (snd (run ?tf ?r0 7 [1, 2, 3] 0))))) = 1"
    using built [THEN conjunct2, THEN conjunct2, THEN conjunct1, THEN mp, OF fin]
    by (simp add: new_runner_def)
  have r2: "run ?tf (fst (snd (run ?tf ?r0 7 [1, 2, 3] 0))) 7 [4, 5, 6] 2 =
     (Inr [15, 16, 17], fst (snd (run ?tf ?r0 7 [1, 2, 3] 0)), 2)"
    using built [THEN conjunct2, THEN conjunct2, THEN conjunct2, THEN mp, OF conjI [OF refl conjI [OF refl refl]]]
    by (simp add: ph sr)
  have st: "graph_run_cache ?r2 (7, (), [3]) = Some ?old" by simp
  have r3: "run ?tf ?r2 7 [1, 2, 3] 0 = (Inr [43, 44, 45], ?r2, 0)"
    using run_cache_by_signature [where tf = ?tf and self = ?r2 and f = 7 and x = "[1, 2, 3]"
      and arr = "[1, 2, 3]" and w = 0 and gr = ?old,
      THEN conjunct1, unfolded arr ids sh, THEN mp, OF conjI [OF ne conjI [OF refl st]]]
    by (simp add: sr)
  have r4: "run ?tf ?r0 13 [1, 2, 3] 0 = (Inl (Raised ()), ?r0, 1)"
    by (rule run_cache_by_signature [where tf = ?tf and self = ?r0 and f = 13 and x = "[1, 2, 3]"
      and arr = "[1, 2, 3]" and w = 0 and g = 0 and ?w1.0 = 1 and e = "()" and ?w2.0 = 1,
      THEN conjunct2, THEN conjunct2, THEN conjunct1, unfolded arr ids sh, THEN mp,
      OF conjI [OF ne conjI [OF refl conjI [OF c0 conjI [OF gph cgf]]]]])
  have ee: "executing_eagerly (toy_tf True)" by (simp add: toy_tf_def)
  have r5: "run (toy_tf True) ?r0 7 [1, 2, 3] 0 = (Inr [0, 0, 0], ?r0, 0)"
    using run_cache_by_signature [where tf = "toy_tf True" and self = ?r0 and f = 7
      and x = "[1, 2, 3]" and w = 0, THEN conjunct2, THEN conjunct2, THEN conjunct2, THEN mp, OF ee]
    by (simp add: toy_tf_def numeral_3_eq_3)
  show ?thesis by (intro conjI ne c0 gph cg ss r1 cd r2 r3 cgf r4 ee r5)
qed

section \<open>Preparing a dataset\<close>

lemma str_nat_nonempty: "str_nat n \<noteq> []"
proof (cases "n < 10")
  case True
  have "str_nat n = [''0123456789'' ! n]"
    by (subst str_nat.simps) (simp only: True if_True)
  then show ?thesis by (simp only: list.distinct not_False_eq_True)
next
  case False
  have "str_nat n = str_nat (n div 10) @ [''0123456789'' ! (n mod 10)]"
    by (subst str_nat.simps) (simp only: False if_False)
  then show ?thesis by (simp only: append_is_Nil_conv list.distinct simp_thms not_False_eq_True)
qed


lemma get_data_dir_version:
  "get_data_dir gf w b (Some v) = Inr (Some (os_path_join (os_path_join (data_dir_root b) (name b)) v))"
  by (simp add: get_data_dir_def)

lemma get_data_dir_nonempty:
  assumes "data_dir_root b \<noteq> []" and "get_data_dir gf w b version = Inr (Some p)"
  shows "p \<noteq> []"
  using assms
  by (auto simp: get_data_dir_def Let_def os_path_join_eq_Nil split: option.splits if_splits sum.splits)

lemma resolve_dl_manager_given:
  "\<not> truthy cache_dir \<Longrightarrow>
   resolve_dl_manager sv self cache_dir (Some m) w = (Inr (Some m), w)"
  by (cases cache_dir) (simp_all add: resolve_dl_manager_def)

lemma resolve_dl_manager_both:
  "truthy cache_dir \<Longrightarrow> dl_manager \<noteq> None \<Longrightarrow>
   resolve_dl_manager sv self cache_dir dl_manager w =
     (Inl (ValueError ''Only one of dl_manager and cache_dir can be defined.''), w)"
  by (simp add: resolve_dl_manager_def)

lemma resolve_dl_manager_neither:
  "\<not> truthy cache_dir \<Longrightarrow>
   resolve_dl_manager sv self cache_dir None w =
     (case DownloadManager sv w (os_path_join (data_dir_root self) ''tmp'') of
        (Inl x, w1) \<Rightarrow> (Inl (Raised x), w1)
      | (Inr m, w1) \<Rightarrow> (Inr (Some m), w1))"
  by (simp add: resolve_dl_manager_def os_path_join_eq_Nil)

lemma resolve_dl_manager_never_None:
  "resolve_dl_manager sv self cache_dir dl_manager w \<noteq> (Inr None, w')"
  by (cases cache_dir; cases dl_manager)
     (auto simp: resolve_dl_manager_def os_path_join_eq_Nil split: prod.splits sum.splits)

lemma resolve_dl_manager_ValueError:
  "fst (resolve_dl_manager sv self cache_dir dl_manager w) = Inl (ValueError msg) \<Longrightarrow>
   truthy cache_dir \<and> dl_manager \<noteq> None"
  by (cases cache_dir; cases dl_manager)
     (auto simp: resolve_dl_manager_def os_path_join_eq_Nil split: prod.splits sum.splits if_splits)

lemma reuse_or_generate_no_ValueError:
  "fst (reuse_or_generate sv hook self m w) \<noteq> Inl (ValueError msg)"
  by (auto simp: reuse_or_generate_def get_data_dir_version Let_def
           split: prod.splits sum.splits if_splits)



lemma reuse_or_generate_hook_raises:
  assumes "\<not> (truthy (data_dir self) \<and> dl_mode sv m = REUSE_DATASET_IF_EXISTS)"
    and "incomplete_dir_enter sv w
           (os_path_join (os_path_join (data_dir_root self) (name self))
              (strftime_version (now sv w))) = (Inr tmp, w1)"
    and "hook (self \<lparr> data_dir := Some tmp \<rparr>) m w1 = (Inl x, w2)"
  shows "\<exists>e w3. reuse_or_generate sv hook self m w = (Inl e, self \<lparr> data_dir := Some tmp \<rparr>, w3)"
  using assms
  by (auto simp: reuse_or_generate_def get_data_dir_version Let_def split: prod.splits sum.splits)

lemma reuse_or_generate_hook_completes:
  assumes "\<not> (truthy (data_dir self) \<and> dl_mode sv m = REUSE_DATASET_IF_EXISTS)"
    and "incomplete_dir_enter sv w
           (os_path_join (os_path_join (data_dir_root self) (name self))
              (strftime_version (now sv w))) = (Inr tmp, w1)"
    and "hook (self \<lparr> data_dir := Some tmp \<rparr>) m w1 = (Inr u, w2)"
  shows "\<exists>r w3. reuse_or_generate sv hook self m w =
           (r, self \<lparr> data_dir := Some (os_path_join (os_path_join (data_dir_root self) (name self))
              (strftime_version (now sv w))) \<rparr>, w3)"
  using assms
  by (auto simp: reuse_or_generate_def get_data_dir_version Let_def split: prod.splits sum.splits)

lemma download_and_prepare_given:
  "\<not> truthy cache_dir \<Longrightarrow>
   download_and_prepare sv hook self cache_dir (Some m) w = reuse_or_generate sv hook self m w"
  by (simp add: download_and_prepare_def resolve_dl_manager_given)



text \<open>
  C4. \<open>download_and_prepare\<close> raises its own \<open>ValueError\<close> (the invalid-argument
  condition) exactly when the caller supplies both a cache directory (a non-empty
  string) and a download manager, and then nothing else happens. When neither is
  supplied, a download manager is constructed from the root joined with \<open>tmp\<close>, and
  the method goes on with it.
\<close>

theorem download_and_prepare_argument_check:
  "((\<exists>msg. fst (download_and_prepare sv hook self cache_dir dl_manager w) = Inl (ValueError msg))
      \<longleftrightarrow> truthy cache_dir \<and> dl_manager \<noteq> None) \<and>
   (truthy cache_dir \<and> dl_manager \<noteq> None \<longrightarrow>
      download_and_prepare sv hook self cache_dir dl_manager w =
        (Inl (ValueError ''Only one of dl_manager and cache_dir can be defined.''), self, w)) \<and>
   (\<not> truthy cache_dir \<and> dl_manager = None \<longrightarrow>
      download_and_prepare sv hook self cache_dir dl_manager w =
        (case DownloadManager sv w (os_path_join (data_dir_root self) ''tmp'') of
           (Inl x, w1) \<Rightarrow> (Inl (Raised x), self, w1)
         | (Inr m, w1) \<Rightarrow> reuse_or_generate sv hook self m w1))"
proof (intro conjI impI)
  have both: "download_and_prepare sv hook self cache_dir dl_manager w =
        (Inl (ValueError ''Only one of dl_manager and cache_dir can be defined.''), self, w)"
    if "truthy cache_dir \<and> dl_manager \<noteq> None"
    using that by (simp add: download_and_prepare_def resolve_dl_manager_both)
  show "(\<exists>msg. fst (download_and_prepare sv hook self cache_dir dl_manager w) = Inl (ValueError msg))
      \<longleftrightarrow> truthy cache_dir \<and> dl_manager \<noteq> None"
  proof
    assume "\<exists>msg. fst (download_and_prepare sv hook self cache_dir dl_manager w) = Inl (ValueError msg)"
    then obtain msg where
      e: "fst (download_and_prepare sv hook self cache_dir dl_manager w) = Inl (ValueError msg)" ..
    obtain r w1 where r: "resolve_dl_manager sv self cache_dir dl_manager w = (r, w1)"
      by (cases "resolve_dl_manager sv self cache_dir dl_manager w")
    show "truthy cache_dir \<and> dl_manager \<noteq> None"
    proof (cases r)
      case (Inl e')
      then have "e' = ValueError msg" using e r by (simp add: download_and_prepare_def)
      then have "fst (resolve_dl_manager sv self cache_dir dl_manager w) = Inl (ValueError msg)"
        using r Inl by simp
      then show ?thesis by (rule resolve_dl_manager_ValueError)
    next
      case (Inr mo)
      show ?thesis
      proof (cases mo)
        case None
        then show ?thesis using e r Inr by (simp add: download_and_prepare_def)
      next
        case (Some m)
        then have "fst (reuse_or_generate sv hook self m w1) = Inl (ValueError msg)"
          using e r Inr by (simp add: download_and_prepare_def)
        then show ?thesis using reuse_or_generate_no_ValueError [of sv hook self m w1 msg] by simp
      qed
    qed
  next
    assume "truthy cache_dir \<and> dl_manager \<noteq> None"
    then show "\<exists>msg. fst (download_and_prepare sv hook self cache_dir dl_manager w) = Inl (ValueError msg)"
      using both by simp
  qed
  show "download_and_prepare sv hook self cache_dir dl_manager w =
        (Inl (ValueError ''Only one of dl_manager and cache_dir can be defined.''), self, w)"
    if "truthy cache_dir \<and> dl_manager \<noteq> None"
    using that by (rule both)
  show "download_and_prepare sv hook self cache_dir dl_manager w =
        (case DownloadManager sv w (os_path_join (data_dir_root self) ''tmp'') of
           (Inl x, w1) \<Rightarrow> (Inl (Raised x), self, w1)
         | (Inr m, w1) \<Rightarrow> reuse_or_generate sv hook self m w1)"
    if "\<not> truthy cache_dir \<and> dl_manager = None"
    using that
    by (simp add: download_and_prepare_def resolve_dl_manager_neither split: prod.splits sum.splits)
qed

theorem download_and_prepare_argument_check_witness:
  "truthy (Some ''/cache'') \<and>
   download_and_prepare example_services completing_hook example_builder (Some ''/cache'')
       (Some (''/other'', REUSE_DATASET_IF_EXISTS)) [] =
     (Inl (ValueError ''Only one of dl_manager and cache_dir can be defined.''), example_builder, []) \<and>
   \<not> truthy None \<and>
   DownloadManager example_services [] (os_path_join (data_dir_root example_builder) ''tmp'') =
     (Inr (''/data/tmp'', REUSE_DATASET_IF_EXISTS), []) \<and>
   download_and_prepare example_services completing_hook example_builder None None [] =
     reuse_or_generate example_services completing_hook example_builder
       (''/data/tmp'', REUSE_DATASET_IF_EXISTS) [] \<and>
   download_and_prepare example_services completing_hook example_builder None None [] =
     (Inr (), example_builder \<lparr> data_dir := Some ''/data/mnist/v_20180601_1200'' \<rparr>,
      [(''/data/mnist/v_20180601_1200'', [])])"
proof -
  let ?m = "(''/other'', REUSE_DATASET_IF_EXISTS)"
  note t = download_and_prepare_argument_check [where sv = example_services
      and hook = completing_hook and self = example_builder]
  have c: "truthy (Some ''/cache'')" by simp
  have n: "\<not> truthy None" by simp
  have a: "download_and_prepare example_services completing_hook example_builder (Some ''/cache'')
       (Some ?m) [] =
     (Inl (ValueError ''Only one of dl_manager and cache_dir can be defined.''), example_builder, [])"
    using t [where cache_dir = "Some ''/cache''" and dl_manager = "Some ?m" and w = "[]",
        THEN conjunct2, THEN conjunct1] c by simp
  have j: "os_path_join (data_dir_root example_builder) ''tmp'' = ''/data/tmp''" by code_simp
  have d: "DownloadManager example_services [] (os_path_join (data_dir_root example_builder) ''tmp'') =
     (Inr (''/data/tmp'', REUSE_DATASET_IF_EXISTS), [])"
    by (simp add: j example_services_def)
  have b: "download_and_prepare example_services completing_hook example_builder None None [] =
     reuse_or_generate example_services completing_hook example_builder
       (''/data/tmp'', REUSE_DATASET_IF_EXISTS) []"
    using t [where cache_dir = None and dl_manager = None and w = "[]",
        THEN conjunct2, THEN conjunct2] n by (simp add: d)
  have v: "download_and_prepare example_services completing_hook example_builder None None [] =
     (Inr (), example_builder \<lparr> data_dir := Some ''/data/mnist/v_20180601_1200'' \<rparr>,
      [(''/data/mnist/v_20180601_1200'', [])])"
    by code_simp
  show ?thesis by (intro conjI c a n d b v)
qed

lemma download_and_prepare_with_manager:
  assumes "(\<not> truthy cache_dir \<and> dl_manager = Some m \<and> w0 = w) \<or>
     (\<not> truthy cache_dir \<and> dl_manager = None \<and>
      DownloadManager sv w (os_path_join (data_dir_root self) ''tmp'') = (Inr m, w0)) \<or>
     (truthy cache_dir \<and> dl_manager = None \<and>
      (\<exists>c. cache_dir = Some c \<and> DownloadManager sv w c = (Inr m, w0)))"
  shows "download_and_prepare sv hook self cache_dir dl_manager w =
     reuse_or_generate sv hook self m w0"
  using assms
proof (elim disjE conjE exE)
  assume "\<not> truthy cache_dir" "dl_manager = Some m" "w0 = w"
  then show ?thesis by (simp add: download_and_prepare_given)
next
  assume "\<not> truthy cache_dir" "dl_manager = None"
    "DownloadManager sv w (os_path_join (data_dir_root self) ''tmp'') = (Inr m, w0)"
  then show ?thesis
    by (simp add: download_and_prepare_def resolve_dl_manager_neither)
next
  fix c
  assume "truthy cache_dir" "dl_manager = None" "cache_dir = Some c"
    "DownloadManager sv w c = (Inr m, w0)"
  then show ?thesis
    by (simp add: download_and_prepare_def resolve_dl_manager_def)
qed

text \<open>
  C9. Take any call that gets past the argument check with a download manager (supplied,
  or constructed from the default or the given cache directory) and generates a new
  version, the staging helper having yielded its path. If the hook raises, the call
  fails and \<open>_data_dir\<close> is left at the staging path: it is not the value before the call
  unless that was the staging path already, and not the final path unless the helper
  yielded that. If the hook completes, \<open>_data_dir\<close> is the final version path
  root/name/version. So with a staging path other than the final one, \<open>_data_dir\<close> is the
  final path after the call only when the hook has completed.
\<close>

theorem download_and_prepare_data_dir_after_hook:
  "((\<not> truthy cache_dir \<and> dl_manager = Some m \<and> w0 = w) \<or>
    (\<not> truthy cache_dir \<and> dl_manager = None \<and>
     DownloadManager sv w (os_path_join (data_dir_root self) ''tmp'') = (Inr m, w0)) \<or>
    (truthy cache_dir \<and> dl_manager = None \<and>
     (\<exists>c. cache_dir = Some c \<and> DownloadManager sv w c = (Inr m, w0)))) \<and>
   \<not> (truthy (data_dir self) \<and> dl_mode sv m = REUSE_DATASET_IF_EXISTS) \<and>
   final = os_path_join (os_path_join (data_dir_root self) (name self))
             (strftime_version (now sv w0)) \<and>
   incomplete_dir_enter sv w0 final = (Inr tmp, w1) \<longrightarrow>
     (hook (self \<lparr> data_dir := Some tmp \<rparr>) m w1 = (Inl x, w2) \<longrightarrow>
        (\<exists>e w3. download_and_prepare sv hook self cache_dir dl_manager w =
                  (Inl e, self \<lparr> data_dir := Some tmp \<rparr>, w3)) \<and>
        data_dir (fst (snd (download_and_prepare sv hook self cache_dir dl_manager w))) = Some tmp \<and>
        (data_dir self \<noteq> Some tmp \<longrightarrow>
           data_dir (fst (snd (download_and_prepare sv hook self cache_dir dl_manager w)))
             \<noteq> data_dir self) \<and>
        (tmp \<noteq> final \<longrightarrow>
           data_dir (fst (snd (download_and_prepare sv hook self cache_dir dl_manager w)))
             \<noteq> Some final)) \<and>
     (hook (self \<lparr> data_dir := Some tmp \<rparr>) m w1 = (Inr (), w2) \<longrightarrow>
        (\<exists>r w3. download_and_prepare sv hook self cache_dir dl_manager w =
                  (r, self \<lparr> data_dir := Some final \<rparr>, w3))) \<and>
     (tmp \<noteq> final \<and>
      data_dir (fst (snd (download_and_prepare sv hook self cache_dir dl_manager w))) = Some final \<longrightarrow>
        (\<exists>w2. hook (self \<lparr> data_dir := Some tmp \<rparr>) m w1 = (Inr (), w2)))"
proof (intro impI)
  assume h: "((\<not> truthy cache_dir \<and> dl_manager = Some m \<and> w0 = w) \<or>
    (\<not> truthy cache_dir \<and> dl_manager = None \<and>
     DownloadManager sv w (os_path_join (data_dir_root self) ''tmp'') = (Inr m, w0)) \<or>
    (truthy cache_dir \<and> dl_manager = None \<and>
     (\<exists>c. cache_dir = Some c \<and> DownloadManager sv w c = (Inr m, w0)))) \<and>
   \<not> (truthy (data_dir self) \<and> dl_mode sv m = REUSE_DATASET_IF_EXISTS) \<and>
   final = os_path_join (os_path_join (data_dir_root self) (name self))
             (strftime_version (now sv w0)) \<and>
   incomplete_dir_enter sv w0 final = (Inr tmp, w1)"
  then have d: "download_and_prepare sv hook self cache_dir dl_manager w =
      reuse_or_generate sv hook self m w0"
    by (intro download_and_prepare_with_manager) blast
  from h have nr: "\<not> (truthy (data_dir self) \<and> dl_mode sv m = REUSE_DATASET_IF_EXISTS)"
    and en: "incomplete_dir_enter sv w0
           (os_path_join (os_path_join (data_dir_root self) (name self))
              (strftime_version (now sv w0))) = (Inr tmp, w1)"
    and fin: "final = os_path_join (os_path_join (data_dir_root self) (name self))
             (strftime_version (now sv w0))"
    by blast+
  have raises: "\<exists>e w3. download_and_prepare sv hook self cache_dir dl_manager w =
                  (Inl e, self \<lparr> data_dir := Some tmp \<rparr>, w3)"
    if "hook (self \<lparr> data_dir := Some tmp \<rparr>) m w1 = (Inl x', w2')" for x' w2'
    unfolding d
    by (rule reuse_or_generate_hook_raises [where hook = hook and x = x' and ?w2.0 = w2', OF nr en that])
  have completes: "\<exists>r w3. download_and_prepare sv hook self cache_dir dl_manager w =
                  (r, self \<lparr> data_dir := Some final \<rparr>, w3)"
    if "hook (self \<lparr> data_dir := Some tmp \<rparr>) m w1 = (Inr u, w2')" for u w2'
    unfolding d fin
    by (rule reuse_or_generate_hook_completes [where hook = hook and u = u and ?w2.0 = w2', OF nr en that])
  show "(hook (self \<lparr> data_dir := Some tmp \<rparr>) m w1 = (Inl x, w2) \<longrightarrow>
        (\<exists>e w3. download_and_prepare sv hook self cache_dir dl_manager w =
                  (Inl e, self \<lparr> data_dir := Some tmp \<rparr>, w3)) \<and>
        data_dir (fst (snd (download_and_prepare sv hook self cache_dir dl_manager w))) = Some tmp \<and>
        (data_dir self \<noteq> Some tmp \<longrightarrow>
           data_dir (fst (snd (download_and_prepare sv hook self cache_dir dl_manager w)))
             \<noteq> data_dir self) \<and>
        (tmp \<noteq> final \<longrightarrow>
           data_dir (fst (snd (download_and_prepare sv hook self cache_dir dl_manager w)))
             \<noteq> Some final)) \<and>
     (hook (self \<lparr> data_dir := Some tmp \<rparr>) m w1 = (Inr (), w2) \<longrightarrow>
        (\<exists>r w3. download_and_prepare sv hook self cache_dir dl_manager w =
                  (r, self \<lparr> data_dir := Some final \<rparr>, w3))) \<and>
     (tmp \<noteq> final \<and>
      data_dir (fst (snd (download_and_prepare sv hook self cache_dir dl_manager w))) = Some final \<longrightarrow>
        (\<exists>w2. hook (self \<lparr> data_dir := Some tmp \<rparr>) m w1 = (Inr (), w2)))"
  proof (intro conjI impI)
    assume hr: "hook (self \<lparr> data_dir := Some tmp \<rparr>) m w1 = (Inl x, w2)"
    from raises [OF hr] obtain e w3 where
      r: "download_and_prepare sv hook self cache_dir dl_manager w =
            (Inl e, self \<lparr> data_dir := Some tmp \<rparr>, w3)"
      by blast
    show "\<exists>e w3. download_and_prepare sv hook self cache_dir dl_manager w =
                  (Inl e, self \<lparr> data_dir := Some tmp \<rparr>, w3)"
      using r by blast
    show "data_dir (fst (snd (download_and_prepare sv hook self cache_dir dl_manager w))) = Some tmp"
      by (simp add: r)
    {
      assume "data_dir self \<noteq> Some tmp"
      then show "data_dir (fst (snd (download_and_prepare sv hook self cache_dir dl_manager w)))
             \<noteq> data_dir self"
        by (simp add: r)
    }
    {
      assume "tmp \<noteq> final"
      then show "data_dir (fst (snd (download_and_prepare sv hook self cache_dir dl_manager w)))
             \<noteq> Some final"
        by (simp add: r)
    }
  next
    assume "hook (self \<lparr> data_dir := Some tmp \<rparr>) m w1 = (Inr (), w2)"
    then show "\<exists>r w3. download_and_prepare sv hook self cache_dir dl_manager w =
                  (r, self \<lparr> data_dir := Some final \<rparr>, w3)"
      by (rule completes)
  next
    assume a: "tmp \<noteq> final \<and>
      data_dir (fst (snd (download_and_prepare sv hook self cache_dir dl_manager w))) = Some final"
    obtain o1 w2' where hk: "hook (self \<lparr> data_dir := Some tmp \<rparr>) m w1 = (o1, w2')"
      by (cases "hook (self \<lparr> data_dir := Some tmp \<rparr>) m w1")
    show "\<exists>w2. hook (self \<lparr> data_dir := Some tmp \<rparr>) m w1 = (Inr (), w2)"
    proof (cases o1)
      case (Inl x')
      from raises [OF hk [unfolded Inl]] obtain e w3 where
        "download_and_prepare sv hook self cache_dir dl_manager w =
            (Inl e, self \<lparr> data_dir := Some tmp \<rparr>, w3)"
        by blast
      then have "data_dir (fst (snd (download_and_prepare sv hook self cache_dir dl_manager w)))
          = Some tmp"
        by simp
      then show ?thesis using a by simp
    next
      case (Inr u)
      then show ?thesis using hk by simp
    qed
  qed
qed
theorem download_and_prepare_data_dir_after_hook_witness:
  "DownloadManager example_services [] (os_path_join (data_dir_root example_builder) ''tmp'') =
     (Inr (''/data/tmp'', REUSE_DATASET_IF_EXISTS), []) \<and>
   \<not> (truthy (data_dir example_builder) \<and>
      dl_mode example_services (''/data/tmp'', REUSE_DATASET_IF_EXISTS) = REUSE_DATASET_IF_EXISTS) \<and>
   os_path_join (os_path_join (data_dir_root example_builder) (name example_builder))
     (strftime_version (now example_services [])) = ''/data/mnist/v_20180601_1200'' \<and>
   incomplete_dir_enter example_services [] ''/data/mnist/v_20180601_1200'' =
     (Inr ''/data/mnist/v_20180601_1200.incomplete'', [(''/data/mnist/v_20180601_1200.incomplete'', [])]) \<and>
   download_and_prepare example_services failing_hook example_builder None None [] =
     (Inl (Raised ()), example_builder \<lparr> data_dir := Some ''/data/mnist/v_20180601_1200.incomplete'' \<rparr>,
      [(''/data/mnist/v_20180601_1200.incomplete'', [])]) \<and>
   data_dir (fst (snd (download_and_prepare example_services failing_hook example_builder None None []))) =
     Some ''/data/mnist/v_20180601_1200.incomplete'' \<and>
   data_dir (fst (snd (download_and_prepare example_services failing_hook example_builder None None [])))
     \<noteq> data_dir example_builder \<and>
   data_dir (fst (snd (download_and_prepare example_services failing_hook example_builder None None [])))
     \<noteq> Some ''/data/mnist/v_20180601_1200'' \<and>
   download_and_prepare example_services completing_hook example_builder None None [] =
     (Inr (), example_builder \<lparr> data_dir := Some ''/data/mnist/v_20180601_1200'' \<rparr>,
      [(''/data/mnist/v_20180601_1200'', [])]) \<and>
   (\<exists>r w3. download_and_prepare example_services completing_hook example_builder None None [] =
      (r, example_builder \<lparr> data_dir := Some ''/data/mnist/v_20180601_1200'' \<rparr>, w3)) \<and>
   data_dir (fst (snd (download_and_prepare example_services failing_hook example_builder
       (Some ''/cache'') None []))) = Some ''/data/mnist/v_20180601_1200.incomplete'' \<and>
   data_dir (fst (snd (download_and_prepare example_services failing_hook example_builder
       None (Some (''/cache'', OTHER_MODE ''force'')) []))) =
     Some ''/data/mnist/v_20180601_1200.incomplete''"
proof -
  let ?final = "''/data/mnist/v_20180601_1200''"
  let ?tmp = "''/data/mnist/v_20180601_1200.incomplete''"
  let ?w1 = "[(?tmp, [])] :: disk"
  let ?m = "(''/data/tmp'', REUSE_DATASET_IF_EXISTS)"
  let ?mc = "(''/cache'', REUSE_DATASET_IF_EXISTS)"
  let ?mf = "(''/cache'', OTHER_MODE ''force'')"
  have j: "os_path_join (data_dir_root example_builder) ''tmp'' = ''/data/tmp''" by code_simp
  have dm: "DownloadManager example_services []
      (os_path_join (data_dir_root example_builder) ''tmp'') = (Inr ?m, [])"
    by (simp add: j example_services_def)
  have dmc: "DownloadManager example_services [] ''/cache'' = (Inr ?mc, [])"
    by (simp add: example_services_def)
  have nd: "data_dir example_builder = None" by (simp add: example_builder_def)
  have g: "\<not> (truthy (data_dir example_builder) \<and>
      dl_mode example_services ?m = REUSE_DATASET_IF_EXISTS)"
    by (simp add: nd)
  have fin: "os_path_join (os_path_join (data_dir_root example_builder) (name example_builder))
        (strftime_version (now example_services [])) = ?final"
    by code_simp
  have en: "incomplete_dir_enter example_services [] ?final = (Inr ?tmp, ?w1)"
    by (simp add: example_services_def)
  have hf: "\<And>m. failing_hook (example_builder \<lparr> data_dir := Some ?tmp \<rparr>) m ?w1 = (Inl (), ?w1)"
    by (simp add: failing_hook_def)
  have hc: "\<And>m. completing_hook (example_builder \<lparr> data_dir := Some ?tmp \<rparr>) m ?w1 = (Inr (), ?w1)"
    by (simp add: completing_hook_def)
  have ne: "?tmp \<noteq> ?final" by simp
  note neither = download_and_prepare_data_dir_after_hook [where cache_dir = None
      and dl_manager = None and m = ?m and ?w0.0 = "[]" and w = "[]" and sv = example_services
      and self = example_builder and final = ?final and tmp = ?tmp and ?w1.0 = ?w1
      and x = "()" and ?w2.0 = ?w1]
  have f1: "data_dir (fst (snd (download_and_prepare example_services failing_hook
        example_builder None None []))) = Some ?tmp"
    using neither [where hook = failing_hook] dm fin en hf by (simp add: nd)
  have f2: "data_dir (fst (snd (download_and_prepare example_services failing_hook
        example_builder None None []))) \<noteq> data_dir example_builder"
    using f1 by (simp add: nd)
  have f3: "data_dir (fst (snd (download_and_prepare example_services failing_hook
        example_builder None None []))) \<noteq> Some ?final"
    using f1 by simp
  have c1: "\<exists>r w3. download_and_prepare example_services completing_hook example_builder None None [] =
      (r, example_builder \<lparr> data_dir := Some ?final \<rparr>, w3)"
    using neither [where hook = completing_hook] dm fin en hc by (simp add: nd)
  have f4: "data_dir (fst (snd (download_and_prepare example_services failing_hook example_builder
       (Some ''/cache'') None []))) = Some ?tmp"
    using download_and_prepare_data_dir_after_hook [where cache_dir = "Some ''/cache''"
      and dl_manager = None and m = ?mc and ?w0.0 = "[]" and w = "[]" and sv = example_services
      and self = example_builder and final = ?final and tmp = ?tmp and ?w1.0 = ?w1
      and x = "()" and ?w2.0 = ?w1 and hook = failing_hook] dmc fin en hf
    by (simp add: nd)
  have f5: "data_dir (fst (snd (download_and_prepare example_services failing_hook example_builder
       None (Some ?mf) []))) = Some ?tmp"
    using download_and_prepare_data_dir_after_hook [where cache_dir = None
      and dl_manager = "Some ?mf" and m = ?mf and ?w0.0 = "[]" and w = "[]" and sv = example_services
      and self = example_builder and final = ?final and tmp = ?tmp and ?w1.0 = ?w1
      and x = "()" and ?w2.0 = ?w1 and hook = failing_hook] fin en hf
    by (simp add: nd)
  have va: "download_and_prepare example_services failing_hook example_builder None None [] =
     (Inl (Raised ()), example_builder \<lparr> data_dir := Some ?tmp \<rparr>, ?w1)"
    by code_simp
  have vb: "download_and_prepare example_services completing_hook example_builder None None [] =
     (Inr (), example_builder \<lparr> data_dir := Some ?final \<rparr>, [(?final, [])])"
    by code_simp
  show ?thesis by (intro conjI dm g fin en va f1 f2 f3 vb c1 f4 f5)
qed

section \<open>Writing the splits\<close>






section \<open>Reading a split back\<close>

text \<open>
  C6. Whenever the split's file pattern resolves, \<open>as_dataset\<close> on a generator-based
  builder builds the dataset with that pattern and with the shuffle flag true for
  \<open>TRAIN\<close> and false for every other split when the caller gives none, and with the
  caller's flag when there is one.
\<close>

theorem as_dataset_shuffle_files_default:
  "filepattern nm (gb_split_files ad self sp None) = Inr pattern \<longrightarrow>
     as_dataset (gb_as_dataset nm ad build_dataset self) sp None =
       (case build_dataset pattern (sp = TRAIN) of Inl x \<Rightarrow> Inl (Raised x) | Inr ds \<Rightarrow> Inr ds) \<and>
     (sp = TRAIN \<longrightarrow>
        gb_as_dataset nm ad build_dataset self sp None =
          (case build_dataset pattern True of Inl x \<Rightarrow> Inl (Raised x) | Inr ds \<Rightarrow> Inr ds)) \<and>
     (sp \<noteq> TRAIN \<longrightarrow>
        gb_as_dataset nm ad build_dataset self sp None =
          (case build_dataset pattern False of Inl x \<Rightarrow> Inl (Raised x) | Inr ds \<Rightarrow> Inr ds)) \<and>
     as_dataset (gb_as_dataset nm ad build_dataset self) sp (Some flag) =
       (case build_dataset pattern flag of Inl x \<Rightarrow> Inl (Raised x) | Inr ds \<Rightarrow> Inr ds) \<and>
     gb_as_dataset nm ad build_dataset self sp (Some flag) =
       (case build_dataset pattern flag of Inl x \<Rightarrow> Inl (Raised x) | Inr ds \<Rightarrow> Inr ds)"
  by (auto simp: as_dataset_def gb_as_dataset_def)

theorem as_dataset_shuffle_files_default_witness:
  "filepattern spec_naming (gb_split_files listing_adapter prepared_builder TRAIN None) =
     Inr ''/data/mnist/v1/mnist-train.tfrecord*'' \<and>
   filepattern spec_naming (gb_split_files listing_adapter prepared_builder TEST None) =
     Inr ''/data/mnist/v1/mnist-test.tfrecord*'' \<and>
   as_dataset (gb_as_dataset spec_naming listing_adapter record_build prepared_builder) TRAIN None =
     Inr (''/data/mnist/v1/mnist-train.tfrecord*'', True) \<and>
   as_dataset (gb_as_dataset spec_naming listing_adapter record_build prepared_builder) TEST None =
     Inr (''/data/mnist/v1/mnist-test.tfrecord*'', False) \<and>
   as_dataset (gb_as_dataset spec_naming listing_adapter record_build prepared_builder) TRAIN (Some False) =
     Inr (''/data/mnist/v1/mnist-train.tfrecord*'', False) \<and>
   as_dataset (gb_as_dataset spec_naming listing_adapter record_build prepared_builder) TEST (Some True) =
     Inr (''/data/mnist/v1/mnist-test.tfrecord*'', True)"
proof -
  have p1: "filepattern spec_naming (gb_split_files listing_adapter prepared_builder TRAIN None) =
     Inr ''/data/mnist/v1/mnist-train.tfrecord*''"
    by code_simp
  have p2: "filepattern spec_naming (gb_split_files listing_adapter prepared_builder TEST None) =
     Inr ''/data/mnist/v1/mnist-test.tfrecord*''"
    by code_simp
  note t1 = as_dataset_shuffle_files_default [where nm = spec_naming and ad = listing_adapter
      and self = prepared_builder and sp = TRAIN and build_dataset = record_build
      and flag = False, THEN mp, OF p1]
  note t2 = as_dataset_shuffle_files_default [where nm = spec_naming and ad = listing_adapter
      and self = prepared_builder and sp = TEST and build_dataset = record_build
      and flag = True, THEN mp, OF p2]
  have a: "as_dataset (gb_as_dataset spec_naming listing_adapter record_build prepared_builder) TRAIN None =
     Inr (''/data/mnist/v1/mnist-train.tfrecord*'', True)"
    using t1 [THEN conjunct1] by (simp add: record_build_def)
  have b: "as_dataset (gb_as_dataset spec_naming listing_adapter record_build prepared_builder) TEST None =
     Inr (''/data/mnist/v1/mnist-test.tfrecord*'', False)"
    using t2 [THEN conjunct1] by (simp add: record_build_def)
  have c: "as_dataset (gb_as_dataset spec_naming listing_adapter record_build prepared_builder) TRAIN (Some False) =
     Inr (''/data/mnist/v1/mnist-train.tfrecord*'', False)"
    using t1 [THEN conjunct2, THEN conjunct2, THEN conjunct2, THEN conjunct1]
    by (simp add: record_build_def)
  have d: "as_dataset (gb_as_dataset spec_naming listing_adapter record_build prepared_builder) TEST (Some True) =
     Inr (''/data/mnist/v1/mnist-test.tfrecord*'', True)"
    using t2 [THEN conjunct2, THEN conjunct2, THEN conjunct2, THEN conjunct1]
    by (simp add: record_build_def)
  show ?thesis by (intro conjI p1 p2 a b c d)
qed

section \<open>File paths of a split without a shard count\<close>




end
